theory Spec2Isabelle
  imports Complex_Main "HOL-Library.Monad_Syntax"
begin

section \<open>Exceptions\<close>

text \<open>
  The exceptions that the modelled functions of \<^verbatim>\<open>verifyproblem.py\<close> can raise:
  \<^verbatim>\<open>VerifyError\<close> is the module's own (raised by \<^verbatim>\<open>ProblemAspect.error\<close> when
  \<^verbatim>\<open>bail_on_error\<close> is set), the others are Python's.
\<close>

datatype exception = VerifyError | NameError | ValueError | TypeError | IndexError | ZeroDivisionError

section \<open>Natural sorting of group names\<close>

text \<open>
  \<^verbatim>\<open>natural_sort_le\<close> is a local function of \<^verbatim>\<open>TestCaseGroup.check\<close>. Characters are
  compared by code point, an index beyond the end of a string raises \<^verbatim>\<open>IndexError\<close>.
\<close>

definition ord :: "char \<Rightarrow> nat" where
  "ord c = of_char c"

definition is_digit :: "char \<Rightarrow> bool" where
  "is_digit c = (ord (CHR ''0'') \<le> ord c \<and> ord c \<le> ord (CHR ''9''))"

text \<open>
  \<^verbatim>\<open>
  def parse_num(s, i):
      ret = 0
      while ord('0') <= ord(s[i]) <= ord('9'):
          ret = ret * 10 + ord(s[i]) - ord('0')
          i += 1
      return ret, i
  \<close>
\<close>

function parse_num_loop :: "string \<Rightarrow> nat \<Rightarrow> nat \<Rightarrow> exception + (nat \<times> nat)" where
  "parse_num_loop s ret i =
     (if i < length s then
        (if is_digit (s ! i)
         then parse_num_loop s (ret * 10 + ord (s ! i) - ord (CHR ''0'')) (i + 1)
         else Inr (ret, i))
      else Inl IndexError)"
  by pat_completeness auto
termination
  by (relation "measure (\<lambda>(s, ret, i). length s - i)") auto

declare parse_num_loop.simps [simp del]

definition parse_num :: "string \<Rightarrow> nat \<Rightarrow> exception + (nat \<times> nat)" where
  "parse_num s i = parse_num_loop s 0 i"

lemma parse_num_loop_index:
  "parse_num_loop s ret i = Inr (n, i') \<Longrightarrow>
     i \<le> i' \<and> i' < length s \<and> (is_digit (s ! i) \<longrightarrow> i < i')"
proof (induction s ret i rule: parse_num_loop.induct)
  case (1 s ret i)
  show ?case
  proof (cases "i < length s \<and> is_digit (s ! i)")
    case True
    with "1.prems" have "parse_num_loop s (ret * 10 + ord (s ! i) - ord (CHR ''0'')) (i + 1) = Inr (n, i')"
      by (simp add: parse_num_loop.simps [of s ret i])
    with "1.IH" True have "i + 1 \<le> i' \<and> i' < length s" by simp
    then show ?thesis by simp
  next
    case False
    with "1.prems" show ?thesis
      by (auto simp: parse_num_loop.simps [of s ret i] split: if_splits)
  qed
qed

text \<open>
  The main loop of \<^verbatim>\<open>natural_sort_le\<close>, on the two strings with their \<^verbatim>\<open>'\0'\<close> sentinels
  appended. The test for a numeric run reads \<^verbatim>\<open>a[i]\<close> and \<^verbatim>\<open>b[i]\<close> (the index of
  \<^verbatim>\<open>a\<close> in both), as the source does; \<^verbatim>\<open>and\<close> evaluates \<^verbatim>\<open>b[i]\<close> only when
  \<^verbatim>\<open>a[i]\<close> is a digit.
  \<^verbatim>\<open>
  while i < len(a) and j < len(b):
      if ord('0') <= ord(a[i]) <= ord('9') and ord('0') <= ord(b[i]) <= ord('9'):
          anum,i = parse_num(a, i)
          bnum,j = parse_num(b, j)
          if anum == bnum:
              continue
          return anum < bnum
      if a[i] == b[j]:
          i += 1
          j += 1
          continue
      return a[i] < b[j]
  return True
  \<close>
\<close>

definition both_digits :: "string \<Rightarrow> string \<Rightarrow> nat \<Rightarrow> exception + bool" where
  "both_digits a b i =
     (if is_digit (a ! i)
      then (if i < length b then Inr (is_digit (b ! i)) else Inl IndexError)
      else Inr False)"

function natural_sort_loop :: "string \<Rightarrow> string \<Rightarrow> nat \<Rightarrow> nat \<Rightarrow> exception + bool" where
  "natural_sort_loop a b i j =
     (if i < length a \<and> j < length b then
        (case both_digits a b i of
           Inl e \<Rightarrow> Inl e
         | Inr True \<Rightarrow>
             (case parse_num a i of
                Inl e \<Rightarrow> Inl e
              | Inr (anum, i') \<Rightarrow>
                  (case parse_num b j of
                     Inl e \<Rightarrow> Inl e
                   | Inr (bnum, j') \<Rightarrow>
                       if anum = bnum then natural_sort_loop a b i' j'
                       else Inr (anum < bnum)))
         | Inr False \<Rightarrow>
             if a ! i = b ! j then natural_sort_loop a b (i + 1) (j + 1)
             else Inr (ord (a ! i) < ord (b ! j)))
      else Inr True)"
  by pat_completeness auto
termination
proof (relation "measure (\<lambda>(a, b, i, j). length a - i)")
  show "wf (measure (\<lambda>(a, b, i, j). length a - i))" by simp
next
  fix a b :: string and i j x y xa ya :: nat and ba :: bool and baa bab :: "nat \<times> nat"
  assume bd: "both_digits a b i = Inr ba" and "ba = True"
    and pa: "parse_num a i = Inr baa" and xy: "(x, y) = baa"
  from bd \<open>ba = True\<close> have "is_digit (a ! i)"
    by (auto simp: both_digits_def split: if_splits)
  with pa xy parse_num_loop_index [of a 0 i x y] have "i < y \<and> y < length a"
    by (auto simp: parse_num_def)
  then have "length a - y < length a - i" by arith
  then show "((a, b, y, ya), a, b, i, j) \<in> measure (\<lambda>(a, b, i, j). length a - i)"
    by simp
next
  fix a b :: string and i j :: nat
  assume "i < length a \<and> j < length b"
  then have "length a - (i + 1) < length a - i" by arith
  then show "((a, b, i + 1, j + 1), a, b, i, j) \<in> measure (\<lambda>(a, b, i, j). length a - i)"
    by simp
qed

declare natural_sort_loop.simps [simp del]

definition natural_sort_le :: "string \<Rightarrow> string \<Rightarrow> exception + bool" where
  "natural_sort_le a b = natural_sort_loop (a @ [CHR 0x00]) (b @ [CHR 0x00]) 0 0"


section \<open>Verdicts and results\<close>

datatype verdict = AC | TLE | OLE | MLE | RTE | WA | PAC | JE

text \<open>
  A test case is referred to by an identifier. \<^verbatim>\<open>SubmissionResult\<close> has the fields of
  the class except \<^verbatim>\<open>sample_failures\<close> (a list of results that is only carried along and
  printed). The verdict is \<^verbatim>\<open>None\<close> in the result that \<^verbatim>\<open>aggregate_results\<close>
  starts from.

  Scores and runtimes are Python numbers, integers or floats. A number is taken as the real
  number it is, and comparing two numbers is exact. Arithmetic on floats is not: a float is
  a double, and each operation rounds its result to a double. So the operations that the
  modelled code applies to floats are parameters, collected in a record: \<open>fsum\<close> is
  \<^verbatim>\<open>sum\<close> of a non-empty list of numbers, \<open>fadd\<close>, \<open>fmul\<close> and \<open>fdiv\<close> are
  \<^verbatim>\<open>+\<close>, \<^verbatim>\<open>*\<close> and \<^verbatim>\<open>/\<close> (by a divisor that is not zero). Their results are
  numbers: an overflow to infinity and NaN are not modelled.
\<close>

record float_arith =
  fsum :: "real list \<Rightarrow> real"
  fadd :: "real \<Rightarrow> real \<Rightarrow> real"
  fmul :: "real \<Rightarrow> real \<Rightarrow> real"
  fdiv :: "real \<Rightarrow> real \<Rightarrow> real"

type_synonym tcid = nat

record SubmissionResult =
  verdict :: "verdict option"
  score :: "real option"
  reason :: "string option"
  additional_info :: "string option"
  testcase :: "tcid option"
  runtime_testcase :: "tcid option"
  runtime :: real
  ac_runtime :: real
  ac_runtime_testcase :: "tcid option"
  validator_first :: bool

definition new_SubmissionResult ::
  "verdict option \<Rightarrow> real option \<Rightarrow> string option \<Rightarrow> string option \<Rightarrow> SubmissionResult" where
  "new_SubmissionResult v sc rs info =
     \<lparr>verdict = v, score = sc, reason = rs, additional_info = info, testcase = None,
      runtime_testcase = None, runtime = - 1, ac_runtime = - 1, ac_runtime_testcase = None,
      validator_first = False\<rparr>"

definition set_ac_runtime :: "SubmissionResult \<Rightarrow> SubmissionResult" where
  "set_ac_runtime r =
     (if verdict r = Some AC
      then r\<lparr>ac_runtime := runtime r, ac_runtime_testcase := runtime_testcase r\<rparr>
      else r)"

section \<open>Diagnostics\<close>

text \<open>
  \<^verbatim>\<open>ProblemAspect.error\<close> marks the reporting object as failed, counts the error in the
  class-wide counter and raises \<^verbatim>\<open>VerifyError\<close> when \<^verbatim>\<open>bail_on_error\<close> is set. The record
  holds the reporting object's \<^verbatim>\<open>_check_res\<close> and the class-wide fields; the logged text
  is not modelled. Every function that can report returns the record as it leaves it, also
  when it raises.
\<close>

record aspect =
  check_res :: "bool option"
  errors :: nat
  warnings :: nat
  bail_on_error :: bool
  consider_warnings_errors :: bool

definition error :: "aspect \<Rightarrow> (exception + unit) \<times> aspect" where
  "error a =
     (let a' = a\<lparr>check_res := Some False, errors := errors a + 1\<rparr>
      in (if bail_on_error a' then Inl VerifyError else Inr (), a'))"

section \<open>Aggregation of the results of a group\<close>

text \<open>
  Of a \<^verbatim>\<open>TestCaseGroup\<close>, aggregation reads \<^verbatim>\<open>config['grading']['aggregation']\<close> and
  \<^verbatim>\<open>config['grading']['max_score']\<close> and it reads and sets the latch \<^verbatim>\<open>_seen_oob_scores\<close>.
\<close>

record TestCaseGroup =
  aggregation :: string
  max_score :: real
  seen_oob_scores :: bool

text \<open>
  The first loop of \<^verbatim>\<open>aggregate_results\<close>: one child folded into the aggregate. (The
  loop also collects the children's \<^verbatim>\<open>sample_failures\<close>, the field left out.)
\<close>

definition aggregate_runtimes :: "SubmissionResult \<Rightarrow> SubmissionResult \<Rightarrow> SubmissionResult" where
  "aggregate_runtimes res r =
     (let res1 = (if runtime r > runtime res
                  then res\<lparr>runtime := runtime r, runtime_testcase := runtime_testcase r\<rparr>
                  else res)
      in if ac_runtime r > ac_runtime res1
         then res1\<lparr>ac_runtime := ac_runtime r, ac_runtime_testcase := ac_runtime_testcase r\<rparr>
         else res1)"

text \<open>
  Python's \<^verbatim>\<open>sum\<close> and \<^verbatim>\<open>min\<close> on a list of scores, each of which may be \<^verbatim>\<open>None\<close>:
  \<^verbatim>\<open>sum\<close> raises \<^verbatim>\<open>TypeError\<close> at a \<^verbatim>\<open>None\<close>, is the integer 0 for the empty list
  and otherwise the sum of the numbers as floating-point addition gives it;
  \<^verbatim>\<open>min\<close> raises \<^verbatim>\<open>ValueError\<close> on the empty list, returns the only element of a
  one-element list and otherwise compares from the left, raising \<^verbatim>\<open>TypeError\<close> when it
  compares with \<^verbatim>\<open>None\<close>.
\<close>

definition py_sum :: "float_arith \<Rightarrow> real option list \<Rightarrow> exception + real" where
  "py_sum F xs =
     (case those xs of
        None \<Rightarrow> Inl TypeError
      | Some ys \<Rightarrow> Inr (if ys = [] then 0 else fsum F ys))"

fun py_min_from :: "real option \<Rightarrow> real option list \<Rightarrow> exception + real option" where
  "py_min_from m [] = Inr m"
| "py_min_from (Some a) (Some b # xs) = py_min_from (if b < a then Some b else Some a) xs"
| "py_min_from m (x # xs) = Inl TypeError"

fun py_min :: "real option list \<Rightarrow> exception + real option" where
  "py_min [] = Inl ValueError"
| "py_min (x # xs) = py_min_from x xs"

text \<open>The verdict of the first child that is not AC, or AC: the \<^verbatim>\<open>min\<close> branch.\<close>

definition first_non_AC :: "SubmissionResult list \<Rightarrow> verdict option" where
  "first_non_AC sub_results =
     (case filter (\<lambda>subres. verdict subres \<noteq> Some AC) sub_results of
        [] \<Rightarrow> Some AC
      | subres # _ \<Rightarrow> verdict subres)"

text \<open>
  The verdict and score of a scoring group:
  \<^verbatim>\<open>
  if self.config['grading']['aggregation'] == 'min':
      res.verdict = ([subres.verdict for subres in sub_results if subres.verdict != 'AC'] + ['AC'])[0]
      res.score= min([subres.score for subres in sub_results])
  elif self.config['grading']['aggregation'] == 'sum':
      if all([subres.verdict == 'AC' for subres in sub_results]):
          res.verdict = 'AC'
      elif all([subres.verdict not in ['AC', 'PAC'] for subres in sub_results]):
          res.verdict = sub_results[0].verdict
      else:
          res.verdict = 'AC'
      res.score = sum([subres.score for subres in sub_results])
  \<close>
\<close>

definition sum_verdict :: "SubmissionResult list \<Rightarrow> exception + verdict option" where
  "sum_verdict sub_results =
     (if list_all (\<lambda>subres. verdict subres = Some AC) sub_results then Inr (Some AC)
      else if list_all (\<lambda>subres. verdict subres \<noteq> Some AC \<and> verdict subres \<noteq> Some PAC) sub_results
      then (case sub_results of [] \<Rightarrow> Inl IndexError | subres # _ \<Rightarrow> Inr (verdict subres))
      else Inr (Some AC))"

definition grade ::
  "float_arith \<Rightarrow> TestCaseGroup \<Rightarrow> SubmissionResult list \<Rightarrow> SubmissionResult \<Rightarrow>
     exception + SubmissionResult" where
  "grade F g sub_results res =
     (if aggregation g = ''min'' then
        (case py_min (map score sub_results) of
           Inl e \<Rightarrow> Inl e
         | Inr m \<Rightarrow> Inr (res\<lparr>verdict := first_non_AC sub_results, score := m\<rparr>))
      else if aggregation g = ''sum'' then
        (case sum_verdict sub_results of
           Inl e \<Rightarrow> Inl e
         | Inr v \<Rightarrow>
             (case py_sum F (map score sub_results) of
                Inl e \<Rightarrow> Inl e
              | Inr s \<Rightarrow> Inr (res\<lparr>verdict := v, score := Some s\<rparr>)))
      else Inr res)"

text \<open>
  The check against the maximum score, which reports an error once per group:
  \<^verbatim>\<open>
  max_score = self.get_max_score()
  if res.score is not None and not (res.score <= max_score) and not self._seen_oob_scores:
      self._seen_oob_scores = True
      self.error(...)
  \<close>
\<close>

definition check_max_score ::
  "TestCaseGroup \<Rightarrow> aspect \<Rightarrow> SubmissionResult \<Rightarrow> (exception + SubmissionResult) \<times> TestCaseGroup \<times> aspect" where
  "check_max_score g a res =
     (case score res of
        None \<Rightarrow> (Inr res, g, a)
      | Some s \<Rightarrow>
          if \<not> s \<le> max_score g \<and> \<not> seen_oob_scores g
          then (case error a of
                  (Inl e, a') \<Rightarrow> (Inl e, g\<lparr>seen_oob_scores := True\<rparr>, a')
                | (Inr _, a') \<Rightarrow> (Inr res, g\<lparr>seen_oob_scores := True\<rparr>, a'))
          else (Inr res, g, a))"

text \<open>
  \<^verbatim>\<open>TestCaseGroup.aggregate_results\<close>, for a problem that is scoring or not. In the branch
  of a problem that is not scoring, the filter of the comprehension
  \<^verbatim>\<open>[res.verdict for res in sub_results if rews.verdict != 'AC']\<close> reads the name
  \<^verbatim>\<open>rews\<close>, which is bound nowhere: evaluating it for the first element raises
  \<^verbatim>\<open>NameError\<close>, and only an empty list gets past it.
\<close>

definition aggregate_results ::
  "float_arith \<Rightarrow> bool \<Rightarrow> TestCaseGroup \<Rightarrow> aspect \<Rightarrow> SubmissionResult list \<Rightarrow>
     (exception + SubmissionResult) \<times> TestCaseGroup \<times> aspect" where
  "aggregate_results F is_scoring g a sub_results =
     (let res = foldl aggregate_runtimes (new_SubmissionResult None None None None) sub_results
      in case find (\<lambda>r. verdict r = Some JE) sub_results of
           Some judge_error \<Rightarrow>
             (Inr (res\<lparr>verdict := verdict judge_error, reason := reason judge_error,
                       additional_info := additional_info judge_error,
                       testcase := testcase judge_error\<rparr>), g, a)
         | None \<Rightarrow>
             (let res1 = (if sub_results \<noteq> []
                          then res\<lparr>testcase := testcase (last sub_results),
                                   additional_info := additional_info (last sub_results)\<rparr>
                          else res)
              in if \<not> is_scoring then
                   (case sub_results of
                      [] \<Rightarrow> (Inr (res1\<lparr>verdict := Some AC\<rparr>), g, a)
                    | _ # _ \<Rightarrow> (Inl NameError, g, a))
                 else
                   (case grade F g sub_results res1 of
                      Inl e \<Rightarrow> (Inl e, g, a)
                    | Inr res2 \<Rightarrow> check_max_score g a res2)))"


section \<open>Exit statuses\<close>

text \<open>
  The status of a finished process is the integer of POSIX \<^verbatim>\<open>wait\<close>. The module reads it
  with the functions of Python's \<^verbatim>\<open>os\<close> and the signal numbers of \<^verbatim>\<open>signal\<close>, which
  are not part of the repository; they are given here as Linux defines them.
\<close>

definition WTERMSIG :: "int \<Rightarrow> int" where
  "WTERMSIG status = status mod 128"

definition WIFEXITED :: "int \<Rightarrow> bool" where
  "WIFEXITED status = (WTERMSIG status = 0)"

definition WEXITSTATUS :: "int \<Rightarrow> int" where
  "WEXITSTATUS status = (status div 256) mod 256"

definition WIFSIGNALED :: "int \<Rightarrow> bool" where
  "WIFSIGNALED status = (WTERMSIG status \<noteq> 0 \<and> WTERMSIG status \<noteq> 127)"

definition SIGXCPU :: int where
  "SIGXCPU = 24"

definition SIGUSR1 :: int where
  "SIGUSR1 = 10"

definition is_TLE :: "int \<Rightarrow> bool \<Rightarrow> bool" where
  "is_TLE status may_signal_with_usr1 =
     (WIFSIGNALED status \<and>
      (WTERMSIG status = SIGXCPU \<or> (may_signal_with_usr1 \<and> WTERMSIG status = SIGUSR1)))"

definition is_RTE :: "int \<Rightarrow> bool" where
  "is_RTE status = (\<not> WIFEXITED status \<or> WEXITSTATUS status \<noteq> 0)"

section \<open>Output validators\<close>

subsection \<open>Strings\<close>

text \<open>
  Decimal numerals as \<^verbatim>\<open>str\<close> writes them and as \<^verbatim>\<open>int\<close> reads them. Python's
  \<^verbatim>\<open>int\<close> accepts more than a run of digits (a sign, blanks around, underscores); the
  module only applies it to fields that its regular expression has matched as \<^verbatim>\<open>\d+\<close>,
  so \<open>py_int\<close> raises on anything else. \<^verbatim>\<open>float\<close> is a parameter of the functions that
  call it: it returns the number read, or the text of the exception.
\<close>

fun str_nat :: "nat \<Rightarrow> string" where
  "str_nat n = (if n < 10 then [char_of (48 + n)] else str_nat (n div 10) @ [char_of (48 + n mod 10)])"

declare str_nat.simps [simp del]

definition str_int :: "int \<Rightarrow> string" where
  "str_int i = (if i < 0 then CHR ''-'' # str_nat (nat (- i)) else str_nat (nat i))"

definition py_int :: "string \<Rightarrow> exception + int" where
  "py_int s =
     (if s \<noteq> [] \<and> list_all is_digit s
      then Inr (int (foldl (\<lambda>n c. n * 10 + (ord c - ord (CHR ''0''))) 0 s))
      else Inl ValueError)"

fun join :: "string \<Rightarrow> string list \<Rightarrow> string" where
  "join sep [] = []"
| "join sep [x] = x"
| "join sep (x # y # ys) = x @ sep @ join sep (y # ys)"

text \<open>
  \<^verbatim>\<open>str.split()\<close> cuts at runs of white space; the characters below are the white space
  among the code points up to 255.
\<close>

definition is_space :: "char \<Rightarrow> bool" where
  "is_space c = (ord c \<in> {9, 10, 11, 12, 13, 28, 29, 30, 31, 32, 133, 160})"

function py_split :: "string \<Rightarrow> string list" where
  "py_split s =
     (case dropWhile is_space s of
        [] \<Rightarrow> []
      | c # cs \<Rightarrow> (c # takeWhile (\<lambda>x. \<not> is_space x) cs) # py_split (dropWhile (\<lambda>x. \<not> is_space x) cs))"
  by pat_completeness auto
termination
proof (relation "measure length")
  show "wf (measure length)" by simp
next
  fix s cs :: string and c :: char
  assume d: "dropWhile is_space s = c # cs"
  have "length (dropWhile (\<lambda>x. \<not> is_space x) cs) \<le> length cs"
    by (rule length_dropWhile_le)
  moreover have "length (c # cs) \<le> length s"
    using length_dropWhile_le [of is_space s] d by simp
  ultimately show "(dropWhile (\<lambda>x. \<not> is_space x) cs, s) \<in> measure length"
    by simp
qed

declare py_split.simps [simp del]

subsection \<open>The result of one validator\<close>

text \<open>
  A feedback directory is the list of its files, each with its name and content, in the
  order \<^verbatim>\<open>os.listdir\<close> gives them.
  \<^verbatim>\<open>
  def __get_feedback(feedback_dir):
      all_feedback = []
      for feedback_file in os.listdir(feedback_dir):
          feedback_path = os.path.join(feedback_dir, feedback_file)
          if os.path.getsize(feedback_path) == 0:
              continue
          all_feedback.append(f'=== {feedback_file}: ===')
          with open(feedback_path, 'r') as feedback:
              all_feedback.append(feedback.read(128*1024))
      if all_feedback:
          return '\n'.join(all_feedback)
      return None
  \<close>
\<close>

type_synonym directory = "(string \<times> string) list"

definition get_feedback :: "directory \<Rightarrow> string option" where
  "get_feedback feedback_dir =
     (let all_feedback =
            concat (map (\<lambda>(feedback_file, content).
                           if length content = 0 then []
                           else [''=== '' @ feedback_file @ '': ==='', take (128 * 1024) content])
                        feedback_dir)
      in if all_feedback \<noteq> [] then Some (join [CHR 0x0A] all_feedback) else None)"

definition quoted :: "string \<Rightarrow> string" where
  "quoted s = [CHR 0x22] @ s @ [CHR 0x22]"

text \<open>
  \<^verbatim>\<open>OutputValidators._parse_validator_results\<close>: \<open>val\<close> is the validator's name as it is
  printed, \<open>custom_score\<close> is \<^verbatim>\<open>config['grading']['custom_scoring']\<close>.
\<close>

definition parse_validator_results ::
  "(string \<Rightarrow> string + real) \<Rightarrow> bool \<Rightarrow> string \<Rightarrow> int \<Rightarrow> directory \<Rightarrow> SubmissionResult" where
  "parse_validator_results float custom_score val status feedbackdir =
     (let score_file = map_of feedbackdir ''score.txt'' in
      if \<not> custom_score \<and> score_file \<noteq> None then
        new_SubmissionResult (Some JE) None
          (Some (''validator produced '' @ quoted ''score.txt'' @
                 '' but problem does not have custom scoring activated'')) None
      else if \<not> WIFEXITED status then
        new_SubmissionResult (Some JE) None
          (Some (''output validator '' @ val @ '' crashed, status '' @ str_int status))
          (get_feedback feedbackdir)
      else
        (let ret = WEXITSTATUS status in
         if ret \<noteq> 42 \<and> ret \<noteq> 43 then
           new_SubmissionResult (Some JE) None
             (Some (''output validator '' @ val @ '' exited with status '' @ str_int ret))
             (get_feedback feedbackdir)
         else if ret = 43 then
           new_SubmissionResult (Some WA) None None (get_feedback feedbackdir)
         else if custom_score then
           (case score_file of
              Some score_str \<Rightarrow>
                (case float score_str of
                   Inl e \<Rightarrow>
                     new_SubmissionResult (Some JE) None
                       (Some (''failed to parse validator score: '' @ e)) None
                 | Inr sc \<Rightarrow> new_SubmissionResult (Some AC) (Some sc) None None)
            | None \<Rightarrow>
                new_SubmissionResult (Some JE) None
                  (Some (''problem has custom scoring but validator did not produce '' @
                         quoted ''score.txt'')) None)
         else new_SubmissionResult (Some AC) None None None))"

subsection \<open>Validating the output of a submission\<close>

text \<open>
  What one validator of \<^verbatim>\<open>_actual_validators()\<close> does when \<^verbatim>\<open>validate\<close> gets to it:
  whether it is there and compiles, and the status and feedback directory of its run.
  \<^verbatim>\<open>validate\<close> starts from a JE result and returns the first result that is not AC.
\<close>

record validator_run =
  compiled :: bool
  val_name :: string
  run_status :: int
  feedback :: directory

fun validate_loop ::
  "(string \<Rightarrow> string + real) \<Rightarrow> bool \<Rightarrow> SubmissionResult \<Rightarrow> validator_run list \<Rightarrow> SubmissionResult" where
  "validate_loop float custom_score res [] = res"
| "validate_loop float custom_score res (v # vs) =
     (if compiled v then
        (let res' = parse_validator_results float custom_score (val_name v) (run_status v) (feedback v)
         in if verdict res' \<noteq> Some AC then res' else validate_loop float custom_score res' vs)
      else validate_loop float custom_score res vs)"

definition validate ::
  "(string \<Rightarrow> string + real) \<Rightarrow> bool \<Rightarrow> validator_run list \<Rightarrow> SubmissionResult" where
  "validate float custom_score runs =
     validate_loop float custom_score (new_SubmissionResult (Some JE) None None None) runs"

subsection \<open>Interactive validation\<close>

text \<open>
  The coordinator's output is matched, from its start, against
  \<^verbatim>\<open>\d+ \d+\.\d+ \d+ \d+\.\d+ (validator|submission)\<close>. Each \<^verbatim>\<open>\d+\<close> is followed by a
  character that is no digit, so the longest run of digits is the only one that can match.
\<close>

definition match_digits :: "string \<Rightarrow> string option" where
  "match_digits s = (if takeWhile is_digit s = [] then None else Some (dropWhile is_digit s))"

definition match_lit :: "string \<Rightarrow> string \<Rightarrow> string option" where
  "match_lit lit s = (if take (length lit) s = lit then Some (drop (length lit) s) else None)"

definition interactive_output_re_match :: "string \<Rightarrow> bool" where
  "interactive_output_re_match s =
     (case match_digits s \<bind> match_lit '' '' \<bind>
           match_digits \<bind> match_lit ''.'' \<bind> match_digits \<bind> match_lit '' '' \<bind>
           match_digits \<bind> match_lit '' '' \<bind>
           match_digits \<bind> match_lit ''.'' \<bind> match_digits \<bind> match_lit '' '' of
        None \<Rightarrow> False
      | Some rest \<Rightarrow> match_lit ''validator'' rest \<noteq> None \<or> match_lit ''submission'' rest \<noteq> None)"

text \<open>
  What the coordinator does for one validator: whether the validator is there and
  compiles, the coordinator's own exit status, the text it wrote, and the feedback
  directory.
\<close>

record interactive_run =
  i_compiled :: bool
  i_val_name :: string
  i_status :: int
  interactive_output :: string
  i_feedback :: directory

text \<open>
  The verdict from a matched output (the innermost \<^verbatim>\<open>else\<close> of the loop):
  \<^verbatim>\<open>
  val_status_str, _, sub_status_str, sub_runtime_str, first = interactive_output.split()
  sub_status = int(sub_status_str)
  sub_runtime = float(sub_runtime_str)
  val_status = int(val_status_str)
  val_JE = not os.WIFEXITED(val_status) or os.WEXITSTATUS(val_status) not in [42, 43]
  val_WA = os.WIFEXITED(val_status) and os.WEXITSTATUS(val_status) == 43
  if val_JE or (val_WA and first == 'validator'):
      if sub_runtime > timelim:
          sub_runtime = timelim
      res = self._parse_validator_results(val, val_status, feedbackdir, testcase)
  elif is_TLE(sub_status, True):
      res = SubmissionResult('TLE')
  elif is_RTE(sub_status):
      res = SubmissionResult('RTE')
  else:
      res = self._parse_validator_results(val, val_status, feedbackdir, testcase)
  res.runtime = sub_runtime
  res.validator_first = (first == 'validator')
  \<close>
  Unpacking raises \<^verbatim>\<open>ValueError\<close> unless there are exactly five fields.
\<close>

definition interactive_verdict ::
  "(string \<Rightarrow> string + real) \<Rightarrow> bool \<Rightarrow> int \<Rightarrow> interactive_run \<Rightarrow> exception + SubmissionResult" where
  "interactive_verdict float custom_score timelim v =
     (case py_split (interactive_output v) of
        [val_status_str, _, sub_status_str, sub_runtime_str, first] \<Rightarrow>
          (case py_int sub_status_str of
             Inl e \<Rightarrow> Inl e
           | Inr sub_status \<Rightarrow>
               (case float sub_runtime_str of
                  Inl _ \<Rightarrow> Inl ValueError
                | Inr sub_runtime \<Rightarrow>
                    (case py_int val_status_str of
                       Inl e \<Rightarrow> Inl e
                     | Inr val_status \<Rightarrow>
                         (let val_JE = (\<not> WIFEXITED val_status \<or>
                                         (WEXITSTATUS val_status \<noteq> 42 \<and> WEXITSTATUS val_status \<noteq> 43));
                              val_WA = (WIFEXITED val_status \<and> WEXITSTATUS val_status = 43);
                              parsed = parse_validator_results float custom_score (i_val_name v)
                                         val_status (i_feedback v);
                              (res, sub_runtime') =
                                (if val_JE \<or> (val_WA \<and> first = ''validator'') then
                                   (parsed, if sub_runtime > of_int timelim then of_int timelim
                                            else sub_runtime)
                                 else if is_TLE sub_status True then
                                   (new_SubmissionResult (Some TLE) None None None, sub_runtime)
                                 else if is_RTE sub_status then
                                   (new_SubmissionResult (Some RTE) None None None, sub_runtime)
                                 else (parsed, sub_runtime))
                          in Inr (res\<lparr>runtime := sub_runtime',
                                      validator_first := (first = ''validator'')\<rparr>)))))
      | _ \<Rightarrow> Inl ValueError)"

text \<open>
  One round of the loop of \<^verbatim>\<open>validate_interactive\<close>, for a validator that is there and
  compiles: the result \<open>res\<close> so far is kept when the coordinator crashed or wrote
  something else than the expected line, and an error is reported.
\<close>

definition interactive_round ::
  "(string \<Rightarrow> string + real) \<Rightarrow> bool \<Rightarrow> int \<Rightarrow> SubmissionResult \<Rightarrow> aspect \<Rightarrow> interactive_run \<Rightarrow>
     (exception + SubmissionResult) \<times> aspect" where
  "interactive_round float custom_score timelim res a v =
     (if is_RTE (i_status v) then
        (case error a of (Inl e, a') \<Rightarrow> (Inl e, a') | (Inr _, a') \<Rightarrow> (Inr res, a'))
      else if \<not> interactive_output_re_match (interactive_output v) then
        (case error a of (Inl e, a') \<Rightarrow> (Inl e, a') | (Inr _, a') \<Rightarrow> (Inr res, a'))
      else
        (case interactive_verdict float custom_score timelim v of
           Inl e \<Rightarrow> (Inl e, a)
         | Inr res' \<Rightarrow> (Inr res', a)))"

fun validate_interactive_loop ::
  "(string \<Rightarrow> string + real) \<Rightarrow> bool \<Rightarrow> int \<Rightarrow> SubmissionResult \<Rightarrow> aspect \<Rightarrow> interactive_run list \<Rightarrow>
     (exception + SubmissionResult) \<times> aspect" where
  "validate_interactive_loop float custom_score timelim res a [] = (Inr res, a)"
| "validate_interactive_loop float custom_score timelim res a (v # vs) =
     (if i_compiled v then
        (case interactive_round float custom_score timelim res a v of
           (Inl e, a') \<Rightarrow> (Inl e, a')
         | (Inr res', a') \<Rightarrow>
             if verdict res' \<noteq> Some AC then (Inr res', a')
             else validate_interactive_loop float custom_score timelim res' a' vs)
      else validate_interactive_loop float custom_score timelim res a vs)"

text \<open>
  \<^verbatim>\<open>OutputValidators.validate_interactive\<close>: \<open>interactive\<close> says whether the coordinator
  was found, \<open>a\<close> is the state of the \<^verbatim>\<open>errorhandler\<close>.
\<close>

definition validate_interactive ::
  "(string \<Rightarrow> string + real) \<Rightarrow> bool \<Rightarrow> bool \<Rightarrow> int \<Rightarrow> aspect \<Rightarrow> interactive_run list \<Rightarrow>
     (exception + SubmissionResult) \<times> aspect" where
  "validate_interactive float custom_score interactive timelim a runs =
     (let res = new_SubmissionResult (Some JE) None None None in
      if \<not> interactive then
        (case error a of (Inl e, a') \<Rightarrow> (Inl e, a') | (Inr _, a') \<Rightarrow> (Inr res, a'))
      else validate_interactive_loop float custom_score timelim res a runs)"

section \<open>Running a submission on a test case\<close>

text \<open>
  Of a \<^verbatim>\<open>TestCase\<close>, running a submission reads the score of a case in its group
  (\<^verbatim>\<open>testcasegroup.config['grading']['score']\<close>) and \<^verbatim>\<open>reuse_result_from\<close>, and it reads
  and writes \<^verbatim>\<open>_result_cache\<close>. Test cases are objects that refer to each other, so they
  live in a store from identifiers to their states. A cache key is
  \<^verbatim>\<open>(sub, args, timelim, timelim_low, timelim_high)\<close>.
\<close>

type_synonym ('s, 'g) cache_key = "'s \<times> 'g \<times> int \<times> int \<times> int"

type_synonym triple = "SubmissionResult \<times> SubmissionResult \<times> SubmissionResult"

record ('s, 'g) TestCase =
  grading_score :: real
  reuse_result_from :: "tcid option"
  result_cache :: "(('s, 'g) cache_key \<times> triple) option"

text \<open>
  The problem as a test case sees it: its kind, its configuration, and what the processes
  it starts do. \<open>sub_run sub c t\<close> is the status and runtime of the submission on the input
  of case \<open>c\<close> under time limit \<open>t\<close>, \<open>validator_runs sub c\<close> what the output validators
  do on the output of that run, \<open>interactive_runs sub c t\<close> what the coordinator does.
\<close>

record 's problem =
  is_interactive :: bool
  is_scoring :: bool
  custom_scoring :: bool
  interactive :: bool
  sub_run :: "'s \<Rightarrow> tcid \<Rightarrow> int \<Rightarrow> int \<times> real"
  validator_runs :: "'s \<Rightarrow> tcid \<Rightarrow> validator_run list"
  interactive_runs :: "'s \<Rightarrow> tcid \<Rightarrow> int \<Rightarrow> interactive_run list"

text \<open>
  The execution under the high limit:
  \<^verbatim>\<open>
  if self._problem.is_interactive:
      res_high = self._problem.output_validators.validate_interactive(self, sub, timelim_high, self._problem.submissions)
  else:
      status, runtime = sub.run(self.infile, outfile, timelim=timelim_high+1, ...)
      if is_TLE(status) or runtime > timelim_high:
          res_high = SubmissionResult('TLE')
      elif is_RTE(status):
          res_high = SubmissionResult('RTE')
      else:
          res_high = self._problem.output_validators.validate(self, outfile)
      res_high.runtime = runtime
  \<close>
\<close>

definition run_high ::
  "(string \<Rightarrow> string + real) \<Rightarrow> 's problem \<Rightarrow> aspect \<Rightarrow> 's \<Rightarrow> tcid \<Rightarrow> int \<Rightarrow>
     (exception + SubmissionResult) \<times> aspect" where
  "run_high float P a sub c timelim_high =
     (if is_interactive P then
        validate_interactive float (custom_scoring P) (interactive P) timelim_high a
          (interactive_runs P sub c timelim_high)
      else
        (let (status, rt) = sub_run P sub c (timelim_high + 1);
             res_high =
               (if is_TLE status False \<or> rt > of_int timelim_high then
                  new_SubmissionResult (Some TLE) None None None
                else if is_RTE status then new_SubmissionResult (Some RTE) None None None
                else validate float (custom_scoring P) (validator_runs P sub c))
         in (Inr (res_high\<lparr>runtime := rt\<rparr>), a)))"

text \<open>
  The classification against the three limits:
  \<^verbatim>\<open>
  if res_high.runtime <= timelim_low:
      res_low = res_high
      res = res_high
  elif res_high.runtime <= timelim:
      res_low = SubmissionResult('TLE')
      res = res_high
  elif res_high.validator_first and res_high.verdict == 'WA':
      res = SubmissionResult('WA')
      res.validator_first = True
      res_low = res
      res_high.runtime = timelim_low
  else:
      res_low = SubmissionResult('TLE')
      res = res_low
  res.runtime = res_high.runtime
  res_low.runtime = res_high.runtime
  res.set_ac_runtime()
  res_low.set_ac_runtime()
  res_high.set_ac_runtime()
  \<close>
  Where the source binds two names to one object, the model has two equal values: the
  updates that follow are the same for both.
\<close>

definition classify :: "SubmissionResult \<Rightarrow> int \<Rightarrow> int \<Rightarrow> triple" where
  "classify res_high timelim timelim_low =
     (let (res, res_low, res_high') =
            (if runtime res_high \<le> of_int timelim_low then (res_high, res_high, res_high)
             else if runtime res_high \<le> of_int timelim then
               (res_high, new_SubmissionResult (Some TLE) None None None, res_high)
             else if validator_first res_high \<and> verdict res_high = Some WA then
               (let res = (new_SubmissionResult (Some WA) None None None)\<lparr>validator_first := True\<rparr>
                in (res, res, res_high\<lparr>runtime := of_int timelim_low\<rparr>))
             else
               (new_SubmissionResult (Some TLE) None None None,
                new_SubmissionResult (Some TLE) None None None, res_high))
      in (set_ac_runtime (res\<lparr>runtime := runtime res_high'\<rparr>),
          set_ac_runtime (res_low\<lparr>runtime := runtime res_high'\<rparr>),
          set_ac_runtime res_high'))"

text \<open>
  \<^verbatim>\<open>TestCase._run_submission_real\<close> on a case that is no alias: a hit in the cache, or the
  run, its classification and the write to the cache.
\<close>

definition run_submission_own ::
  "(string \<Rightarrow> string + real) \<Rightarrow> 's problem \<Rightarrow> (tcid \<Rightarrow> ('s, 'g) TestCase) \<Rightarrow> aspect \<Rightarrow> tcid \<Rightarrow>
     ('s, 'g) cache_key \<Rightarrow>
     (exception + triple \<times> bool) \<times> (tcid \<Rightarrow> ('s, 'g) TestCase) \<times> aspect" where
  "run_submission_own float P st a c cache_key =
     (case (case result_cache (st c) of
              Some (k, t) \<Rightarrow> if k = cache_key then Some t else None
            | None \<Rightarrow> None) of
        Some t \<Rightarrow> (Inr (t, True), st, a)
      | None \<Rightarrow>
          (case cache_key of (sub, args, timelim, timelim_low, timelim_high) \<Rightarrow>
             (case run_high float P a sub c timelim_high of
                (Inl e, a') \<Rightarrow> (Inl e, st, a')
              | (Inr res_high, a') \<Rightarrow>
                  (let t = classify res_high timelim timelim_low
                   in (Inr (t, False),
                       st(c := (st c)\<lparr>result_cache := Some (cache_key, t)\<rparr>), a')))))"

text \<open>
  \<^verbatim>\<open>TestCase._run_submission_real\<close>: an alias hands the call to its target. A chain of
  aliases that never ends has no result.
\<close>

partial_function (option) run_submission_real ::
  "(string \<Rightarrow> string + real) \<Rightarrow> 's problem \<Rightarrow> (tcid \<Rightarrow> ('s, 'g) TestCase) \<Rightarrow> aspect \<Rightarrow> tcid \<Rightarrow>
     ('s, 'g) cache_key \<Rightarrow>
     ((exception + triple \<times> bool) \<times> (tcid \<Rightarrow> ('s, 'g) TestCase) \<times> aspect) option" where
  "run_submission_real float P st a c cache_key =
     (case reuse_result_from (st c) of
        Some target \<Rightarrow> run_submission_real float P st a target cache_key
      | None \<Rightarrow> Some (run_submission_own float P st a c cache_key))"

text \<open>
  \<^verbatim>\<open>
  def _init_result_for_testcase(self, res):
      res = copy.copy(res)
      res.testcase = self
      res.runtime_testcase = self
      if res.score is None and self._problem.is_scoring:
          if res.verdict == 'AC':
              res.score = self.testcasegroup.config['grading']['score']
          else:
              res.score = 0.0
      return res
  \<close>
\<close>

definition init_result_for_testcase ::
  "'s problem \<Rightarrow> ('s, 'g) TestCase \<Rightarrow> tcid \<Rightarrow> SubmissionResult \<Rightarrow> SubmissionResult" where
  "init_result_for_testcase P self c res =
     (let res1 = res\<lparr>testcase := Some c, runtime_testcase := Some c\<rparr>
      in if score res1 = None \<and> is_scoring P then
           (if verdict res1 = Some AC then res1\<lparr>score := Some (grading_score self)\<rparr>
            else res1\<lparr>score := Some 0\<rparr>)
         else res1)"

text \<open>
  \<^verbatim>\<open>TestCase.run_submission\<close>: the three results, each copied and stamped with the case.
  (For a sample case the source also records a main result that is not AC in its
  \<^verbatim>\<open>sample_failures\<close>, the field left out.)
\<close>

definition run_submission ::
  "(string \<Rightarrow> string + real) \<Rightarrow> 's problem \<Rightarrow> (tcid \<Rightarrow> ('s, 'g) TestCase) \<Rightarrow> aspect \<Rightarrow> tcid \<Rightarrow>
     ('s, 'g) cache_key \<Rightarrow>
     ((exception + triple) \<times> (tcid \<Rightarrow> ('s, 'g) TestCase) \<times> aspect) option" where
  "run_submission float P st a c cache_key =
     (case run_submission_real float P st a c cache_key of
        None \<Rightarrow> None
      | Some (Inl e, st', a') \<Rightarrow> Some (Inl e, st', a')
      | Some (Inr ((res, res_low, res_high), reused), st', a') \<Rightarrow>
          Some (Inr (init_result_for_testcase P (st c) c res,
                     init_result_for_testcase P (st c) c res_low,
                     init_result_for_testcase P (st c) c res_high), st', a'))"

section \<open>Time limits from the accepted submissions\<close>

text \<open>
  Python's \<^verbatim>\<open>int\<close> of a float cuts off the fraction, towards zero. Division by zero
  raises. The product, the quotient and the sums with 0.5 are floating-point operations.
  \<^verbatim>\<open>
  if len(runtimes) > 0:
      max_runtime = max(runtimes)
      exact_timelim = max_runtime * time_multiplier
      timelim = max(1, int(0.5 + exact_timelim))
      timelim_margin_lo = max(1, min(int(0.5 + exact_timelim / safety_margin), timelim - 1))
      timelim_margin = max(timelim + 1, int(0.5 + exact_timelim * safety_margin))
  \<close>
  \<open>infer_limits\<close> is this block of \<^verbatim>\<open>Submissions.check\<close>, with the limits before it as
  \<open>old\<close>; the fixed limit of the command line, which replaces \<^verbatim>\<open>timelim\<close> afterwards, is
  not part of it.
\<close>

definition int_of_float :: "real \<Rightarrow> int" where
  "int_of_float x = (if 0 \<le> x then \<lfloor>x\<rfloor> else \<lceil>x\<rceil>)"

fun py_max :: "real list \<Rightarrow> exception + real" where
  "py_max [] = Inl ValueError"
| "py_max (x # xs) = Inr (foldl (\<lambda>m y. if y > m then y else m) x xs)"

definition infer_limits ::
  "float_arith \<Rightarrow> real list \<Rightarrow> real \<Rightarrow> real \<Rightarrow> int \<times> int \<times> int \<Rightarrow> exception + int \<times> int \<times> int" where
  "infer_limits F runtimes time_multiplier safety_margin old =
     (if length runtimes > 0 then
        (case py_max runtimes of
           Inl e \<Rightarrow> Inl e
         | Inr max_runtime \<Rightarrow>
             (let exact_timelim = fmul F max_runtime time_multiplier;
                  timelim = max 1 (int_of_float (fadd F 0.5 exact_timelim))
              in if safety_margin = 0 then Inl ZeroDivisionError
                 else
                   (let timelim_margin_lo =
                          max 1 (min (int_of_float (fadd F 0.5 (fdiv F exact_timelim safety_margin)))
                               (timelim - 1));
                        timelim_margin =
                          max (timelim + 1)
                            (int_of_float (fadd F 0.5 (fmul F exact_timelim safety_margin)))
                    in Inr (timelim, timelim_margin_lo, timelim_margin))))
      else Inr old)"

section \<open>Properties of the natural sorting\<close>

text \<open>
  C9 (the comparison is reflexive, transitive, and orders \<^verbatim>\<open>"a" + N\<close> by the number): the
  source's comment asks for an order in which numeric runs count by value, but the test for
  a numeric run indexes \<^verbatim>\<open>b\<close> with \<^verbatim>\<open>i\<close>, the position in \<^verbatim>\<open>a\<close>. Once a run with
  leading zeros has moved \<^verbatim>\<open>i\<close> and \<^verbatim>\<open>j\<close> apart, a later number is compared digit by
  digit. The three names below are each below the next, yet the first is not below the
  third: the comparison is not transitive.
\<close>

theorem natural_sort_le_not_transitive:
  "natural_sort_le ''00x10'' ''0x9'' = Inr True \<and>
   natural_sort_le ''0x9'' ''00x9'' = Inr True \<and>
   natural_sort_le ''00x10'' ''00x9'' = Inr False"
  by code_simp

text \<open>The misplaced index can also leave the string: the comparison then raises.\<close>

lemma natural_sort_le_IndexError: "natural_sort_le ''00a1'' ''0a'' = Inl IndexError"
  by code_simp

text \<open>Where the two positions stay together, numbers are compared by value.\<close>

lemma natural_sort_le_numbers:
  "natural_sort_le ''a9'' ''a10'' = Inr True \<and> natural_sort_le ''a10'' ''a9'' = Inr False \<and>
   natural_sort_le ''a10'' ''a010'' = Inr True \<and> natural_sort_le ''a010'' ''a10a'' = Inr True"
  by code_simp

section \<open>Properties of the aggregation\<close>

text \<open>
  For the examples: arithmetic without rounding. The examples apply it where floating-point
  arithmetic does not round either (sums of small integers, products and quotients by 2)
  or where the rounding does not change the integer part.
\<close>

definition exact_arith :: float_arith where
  "exact_arith = \<lparr>fsum = sum_list, fadd = (+), fmul = (*), fdiv = (/)\<rparr>"

definition ex_leaf :: "verdict \<Rightarrow> real \<Rightarrow> SubmissionResult" where
  "ex_leaf v s = (new_SubmissionResult (Some v) None None None)\<lparr>score := Some s\<rparr>"

definition ex_group :: "string \<Rightarrow> real \<Rightarrow> TestCaseGroup" where
  "ex_group agg m = \<lparr>aggregation = agg, max_score = m, seen_oob_scores = False\<rparr>"

definition ex_aspect :: "bool \<Rightarrow> aspect" where
  "ex_aspect bail = \<lparr>check_res = Some True, errors = 0, warnings = 0, bail_on_error = bail,
     consider_warnings_errors = False\<rparr>"

lemma find_JE_None:
  "\<forall>r \<in> set rs. verdict r \<noteq> Some JE \<Longrightarrow> find (\<lambda>r. verdict r = Some JE) rs = None"
  by (simp add: find_None_iff)

lemma aggregate_runtimes_fields:
  "verdict (aggregate_runtimes res r) = verdict res"
  "score (aggregate_runtimes res r) = score res"
  by (simp_all add: aggregate_runtimes_def Let_def)

lemma foldl_aggregate_runtimes_fields:
  "verdict (foldl aggregate_runtimes res rs) = verdict res \<and>
   score (foldl aggregate_runtimes res rs) = score res"
  by (induction rs arbitrary: res) (simp_all add: aggregate_runtimes_fields)

lemma those_map_Some: "those (map Some ss) = Some ss"
  by (induction ss) simp_all

lemma py_sum_Some: "ss \<noteq> [] \<Longrightarrow> py_sum F (map Some ss) = Inr (fsum F ss)"
  by (simp add: py_sum_def those_map_Some)

lemma sum_verdict_nonempty:
  "rs \<noteq> [] \<Longrightarrow> sum_verdict rs =
     Inr (if (\<forall>r \<in> set rs. verdict r = Some AC) then Some AC
          else if (\<forall>r \<in> set rs. verdict r \<noteq> Some AC \<and> verdict r \<noteq> Some PAC) then verdict (hd rs)
          else Some AC)"
  by (cases rs) (auto simp: sum_verdict_def list_all_iff)

lemma check_max_score_returns:
  "\<not> bail_on_error a \<or> seen_oob_scores g \<or> (\<forall>s. score res = Some s \<longrightarrow> s \<le> max_score g) \<Longrightarrow>
     \<exists>g' a'. check_max_score g a res = (Inr res, g', a')"
  by (auto simp: check_max_score_def error_def Let_def split: option.splits)

text \<open>
  C3: in a scoring group with \<^verbatim>\<open>sum\<close> aggregation, for a non-empty list of children none
  of which is JE and whose scores are \<open>ss\<close>, \<^verbatim>\<open>aggregate_results\<close> returns a result
  whose score is the sum of \<open>ss\<close>, as \<^verbatim>\<open>sum\<close> computes it (\<open>fsum\<close>: for floats the
  rounded sum, which for 0.1 and 0.2 is above 0.3), and whose verdict is AC when every
  child is AC, the first child's verdict when no child is AC or PAC, and AC otherwise. The
  call returns unless that sum exceeds the group's maximum for the first time while
  \<^verbatim>\<open>bail_on_error\<close> is set: the error reported for that is then raised as
  \<^verbatim>\<open>VerifyError\<close>.
\<close>

theorem sum_aggregation:
  assumes "aggregation g = ''sum''" and "rs \<noteq> []"
    and "\<forall>r \<in> set rs. verdict r \<noteq> Some JE"
    and "map score rs = map Some ss"
    and "\<not> bail_on_error a \<or> seen_oob_scores g \<or> fsum F ss \<le> max_score g"
  shows "\<exists>res g' a'. aggregate_results F True g a rs = (Inr res, g', a') \<and>
           score res = Some (fsum F ss) \<and>
           verdict res =
             (if (\<forall>r \<in> set rs. verdict r = Some AC) then Some AC
              else if (\<forall>r \<in> set rs. verdict r \<noteq> Some AC \<and> verdict r \<noteq> Some PAC) then verdict (hd rs)
              else Some AC)"
proof -
  let ?v = "if (\<forall>r \<in> set rs. verdict r = Some AC) then Some AC
              else if (\<forall>r \<in> set rs. verdict r \<noteq> Some AC \<and> verdict r \<noteq> Some PAC) then verdict (hd rs)
              else Some AC"
  let ?start = "foldl aggregate_runtimes (new_SubmissionResult None None None None) rs"
  let ?last = "?start\<lparr>testcase := testcase (last rs), additional_info := additional_info (last rs)\<rparr>"
  let ?res = "?last\<lparr>verdict := ?v, score := Some (fsum F ss)\<rparr>"
  from assms(2,4) have ne: "ss \<noteq> []" by auto
  have g: "grade F g rs ?last = Inr ?res"
    using assms(1,2,4) by (simp add: grade_def sum_verdict_nonempty py_sum_Some [OF ne])
  have "\<not> bail_on_error a \<or> seen_oob_scores g \<or> (\<forall>s. score ?res = Some s \<longrightarrow> s \<le> max_score g)"
    using assms(5) by auto
  from check_max_score_returns [OF this]
  obtain g' a' where c: "check_max_score g a ?res = (Inr ?res, g', a')" by blast
  have "aggregate_results F True g a rs = (Inr ?res, g', a')"
    using assms(2) find_JE_None [OF assms(3)] g c
    by (simp add: aggregate_results_def Let_def)
  then show ?thesis by simp
qed

text \<open>
  Three cases worth 5 each in a group with maximum 15, with results AC, WA, AC: the
  group is AC with score 10.
\<close>

theorem sum_aggregation_witness:
  "\<exists>res g' a'. aggregate_results exact_arith True (ex_group ''sum'' 15) (ex_aspect True)
       [ex_leaf AC 5, ex_leaf WA 0, ex_leaf AC 5] = (Inr res, g', a') \<and>
     score res = Some 10 \<and> verdict res = Some AC"
  using sum_aggregation [where g = "ex_group ''sum'' 15"
      and rs = "[ex_leaf AC 5, ex_leaf WA 0, ex_leaf AC 5]" and ss = "[5, 0, 5]"
      and a = "ex_aspect True" and F = exact_arith]
  by (simp add: ex_group_def ex_leaf_def new_SubmissionResult_def exact_arith_def)

lemma pass_fail_NameError:
  assumes "rs \<noteq> []" and "\<forall>r \<in> set rs. verdict r \<noteq> Some JE"
  shows "aggregate_results F False g a rs = (Inl NameError, g, a)"
  using assms(1) find_JE_None [OF assms(2)]
  by (cases rs) (simp_all add: aggregate_results_def Let_def)

text \<open>
  C4 (a pass/fail group gets the verdict of its first child that is not AC, or AC): this
  is what the branch is written to compute, but its filter reads the unbound name
  \<^verbatim>\<open>rews\<close>, so for every non-empty list of children without a JE the call raises
  \<^verbatim>\<open>NameError\<close> (lemma \<open>pass_fail_NameError\<close>). Here the children are AC and WA.
\<close>

theorem pass_fail_aggregation_raises:
  "aggregate_results exact_arith False (ex_group [] 0) (ex_aspect False)
     [new_SubmissionResult (Some AC) None None None, new_SubmissionResult (Some WA) None None None]
   = (Inl NameError, ex_group [] 0, ex_aspect False)"
  by (rule pass_fail_NameError) (simp_all add: new_SubmissionResult_def)

text \<open>
  C7: when some child is JE, the aggregate takes the verdict, reason, additional
  information and test case of the first such child and is returned at once, whatever the
  other children are and whatever the grading mode: no score is computed, the group and the
  diagnostics are left as they were.
\<close>

theorem judge_error_short_circuit:
  assumes "\<exists>r \<in> set rs. verdict r = Some JE"
  shows "\<exists>je res. find (\<lambda>r. verdict r = Some JE) rs = Some je \<and>
           aggregate_results F scoring g a rs = (Inr res, g, a) \<and>
           verdict res = Some JE \<and> reason res = reason je \<and>
           additional_info res = additional_info je \<and> testcase res = testcase je \<and>
           score res = None"
proof -
  from assms obtain je where f: "find (\<lambda>r. verdict r = Some JE) rs = Some je"
    by (cases "find (\<lambda>r. verdict r = Some JE) rs") (auto simp: find_None_iff)
  then have v: "verdict je = Some JE"
    by (auto simp: find_Some_iff)
  let ?res = "foldl aggregate_runtimes (new_SubmissionResult None None None None) rs"
  have s: "score ?res = None"
    by (simp add: foldl_aggregate_runtimes_fields new_SubmissionResult_def)
  have "aggregate_results F scoring g a rs =
          (Inr (?res\<lparr>verdict := verdict je, reason := reason je,
                      additional_info := additional_info je, testcase := testcase je\<rparr>), g, a)"
    using f by (simp add: aggregate_results_def Let_def)
  with f v s show ?thesis by simp
qed

theorem judge_error_short_circuit_witness:
  "\<exists>res. aggregate_results exact_arith True (ex_group ''sum'' 15) (ex_aspect True)
            [ex_leaf AC 5, (new_SubmissionResult (Some JE) None (Some ''crashed'') None)\<lparr>testcase := Some 7\<rparr>,
             ex_leaf AC 5]
          = (Inr res, ex_group ''sum'' 15, ex_aspect True) \<and>
          verdict res = Some JE \<and> reason res = Some ''crashed'' \<and> additional_info res = None \<and>
          testcase res = Some 7 \<and> score res = None"
  using judge_error_short_circuit [where rs =
      "[ex_leaf AC 5, (new_SubmissionResult (Some JE) None (Some ''crashed'') None)\<lparr>testcase := Some 7\<rparr>,
        ex_leaf AC 5]" and scoring = True and g = "ex_group ''sum'' 15" and a = "ex_aspect True"
      and F = exact_arith]
  by (auto simp: ex_leaf_def new_SubmissionResult_def)

text \<open>
  C10: on an empty list of children, a scoring group with \<^verbatim>\<open>min\<close> aggregation raises
  (\<^verbatim>\<open>min\<close> of an empty sequence is a \<^verbatim>\<open>ValueError\<close>) instead of returning a result,
  whereas \<^verbatim>\<open>sum\<close> aggregation and the branch of a pass/fail problem return a result with
  verdict AC. The sum of no scores is 0; the \<^verbatim>\<open>sum\<close> branch returns unless that exceeds
  a negative maximum for the first time while \<^verbatim>\<open>bail_on_error\<close> is set.
\<close>

theorem empty_aggregation:
  "(aggregation g = ''min'' \<longrightarrow> aggregate_results F True g a [] = (Inl ValueError, g, a)) \<and>
   (aggregation g = ''sum'' \<and> (\<not> bail_on_error a \<or> seen_oob_scores g \<or> 0 \<le> max_score g) \<longrightarrow>
      (\<exists>res g' a'. aggregate_results F True g a [] = (Inr res, g', a') \<and> verdict res = Some AC)) \<and>
   (\<exists>res. aggregate_results F False g a [] = (Inr res, g, a) \<and> verdict res = Some AC)"
  by (auto simp: aggregate_results_def grade_def sum_verdict_def py_sum_def check_max_score_def
      error_def Let_def)

theorem empty_aggregation_witness:
  "aggregate_results exact_arith True (ex_group ''min'' 5) (ex_aspect False) [] =
     (Inl ValueError, ex_group ''min'' 5, ex_aspect False) \<and>
   (\<exists>res g' a'. aggregate_results exact_arith True (ex_group ''sum'' 5) (ex_aspect True) [] =
      (Inr res, g', a') \<and>
      verdict res = Some AC) \<and>
   (\<exists>res. aggregate_results exact_arith False (ex_group [] 0) (ex_aspect True) [] =
      (Inr res, ex_group [] 0, ex_aspect True) \<and> verdict res = Some AC)"
  using empty_aggregation [where g = "ex_group ''min'' 5" and a = "ex_aspect False"
      and F = exact_arith]
    empty_aggregation [where g = "ex_group ''sum'' 5" and a = "ex_aspect True" and F = exact_arith]
    empty_aggregation [where g = "ex_group [] 0" and a = "ex_aspect True" and F = exact_arith]
  by (simp add: ex_group_def ex_aspect_def)


section \<open>Properties of the output validators\<close>

text \<open>
  For the examples: a reader of the numerals \<^verbatim>\<open>\d+\<close> and \<^verbatim>\<open>\d+\.\d+\<close>, on which it
  gives the number that \<^verbatim>\<open>float\<close> gives; it is applied to such numerals and to a text
  that \<^verbatim>\<open>float\<close> rejects too.
\<close>

definition digits_value :: "string \<Rightarrow> nat" where
  "digits_value s = foldl (\<lambda>n c. n * 10 + (ord c - ord (CHR ''0''))) 0 s"

definition float_decimal :: "string \<Rightarrow> string + real" where
  "float_decimal s =
     (let whole = takeWhile is_digit s; rest = dropWhile is_digit s in
      if whole \<noteq> [] \<and> rest = [] then Inr (real (digits_value whole))
      else if whole \<noteq> [] \<and> take 1 rest = ''.'' \<and> drop 1 rest \<noteq> [] \<and> list_all is_digit (drop 1 rest)
      then Inr (real (digits_value whole) + real (digits_value (drop 1 rest)) / 10 ^ length (drop 1 rest))
      else Inl (''could not convert string to float: '' @ [CHR 0x27] @ s @ [CHR 0x27]))"

definition ex_interactive_run :: "string \<Rightarrow> interactive_run" where
  "ex_interactive_run out =
     \<lparr>i_compiled = True, i_val_name = ''validate'', i_status = 0, interactive_output = out,
      i_feedback = [(''judgemessage.txt'', ''wrong'')]\<rparr>"

lemma ex_status_42: "WIFEXITED 10752 \<and> WEXITSTATUS 10752 = 42"
  by (simp add: WIFEXITED_def WEXITSTATUS_def WTERMSIG_def)

lemma ex_status_43: "WIFEXITED 11008 \<and> WEXITSTATUS 11008 = 43"
  by (simp add: WIFEXITED_def WEXITSTATUS_def WTERMSIG_def)

lemma ex_float_score: "float_decimal ''7.5'' = Inr 7.5"
  by code_simp

lemma ex_float_abc: "float_decimal ''abc'' = Inl (''could not convert string to float: '' @ [CHR 0x27] @ ''abc'' @ [CHR 0x27])"
  by code_simp

lemma ex_feedback:
  "get_feedback [(''judgemessage.txt'', ''wrong'')] =
     Some (''=== judgemessage.txt: ==='' @ [CHR 0x0A] @ ''wrong'')"
  by (simp add: get_feedback_def)

text \<open>
  C5, as the code has it: a file \<^verbatim>\<open>score.txt\<close> without custom scoring gives JE whatever
  the exit status is. Otherwise a validator that did not exit, or exited with a status other
  than 42 and 43, gives JE; status 43 gives WA with the feedback as additional information
  and no score; status 42 gives AC without a score when custom scoring is off, and under
  custom scoring AC with the score read from \<^verbatim>\<open>score.txt\<close>, or JE when the file is
  missing or \<^verbatim>\<open>float\<close> does not read it.
\<close>

theorem parse_validator_results_protocol:
  "let r = parse_validator_results float custom_score val status dir;
       score_file = map_of dir ''score.txt''
   in (\<not> custom_score \<and> score_file \<noteq> None \<longrightarrow> verdict r = Some JE) \<and>
      (custom_score \<or> score_file = None \<longrightarrow>
         (\<not> WIFEXITED status \<or> (WEXITSTATUS status \<noteq> 42 \<and> WEXITSTATUS status \<noteq> 43) \<longrightarrow>
            verdict r = Some JE \<and> additional_info r = get_feedback dir) \<and>
         (WIFEXITED status \<and> WEXITSTATUS status = 43 \<longrightarrow>
            verdict r = Some WA \<and> additional_info r = get_feedback dir \<and> score r = None) \<and>
         (WIFEXITED status \<and> WEXITSTATUS status = 42 \<longrightarrow>
            (\<not> custom_score \<longrightarrow> verdict r = Some AC \<and> score r = None) \<and>
            (custom_score \<longrightarrow>
               (case score_file of
                  None \<Rightarrow> verdict r = Some JE
                | Some score_str \<Rightarrow>
                    (case float score_str of
                       Inl e \<Rightarrow> verdict r = Some JE
                     | Inr x \<Rightarrow> verdict r = Some AC \<and> score r = Some x)))))"
  by (auto simp: parse_validator_results_def new_SubmissionResult_def Let_def
      split: option.splits sum.splits)

theorem parse_validator_results_protocol_witness:
  "verdict (parse_validator_results float_decimal True ''validate'' 10752 [(''score.txt'', ''7.5'')])
     = Some AC \<and>
   score (parse_validator_results float_decimal True ''validate'' 10752 [(''score.txt'', ''7.5'')])
     = Some 7.5 \<and>
   verdict (parse_validator_results float_decimal False ''validate'' 11008
              [(''judgemessage.txt'', ''wrong'')]) = Some WA \<and>
   additional_info (parse_validator_results float_decimal False ''validate'' 11008
              [(''judgemessage.txt'', ''wrong'')])
     = Some (''=== judgemessage.txt: ==='' @ [CHR 0x0A] @ ''wrong'')"
  using parse_validator_results_protocol [of float_decimal True "''validate''" 10752
      "[(''score.txt'', ''7.5'')]"]
    parse_validator_results_protocol [of float_decimal False "''validate''" 11008
      "[(''judgemessage.txt'', ''wrong'')]"]
    ex_status_42 ex_status_43 ex_float_score ex_feedback
  by (simp add: Let_def)

text \<open>
  The claim as it stands fails twice: a validator that exits with 43 but leaves a
  \<^verbatim>\<open>score.txt\<close> in a problem without custom scoring gets JE, not WA; and a validator that
  exits with 42 under custom scoring gets JE when its \<^verbatim>\<open>score.txt\<close> is no number.
\<close>

theorem parse_validator_results_counterexample:
  "WIFEXITED 11008 \<and> WEXITSTATUS 11008 = 43 \<and>
   verdict (parse_validator_results float_decimal False ''validate'' 11008 [(''score.txt'', ''1'')])
     = Some JE \<and>
   WIFEXITED 10752 \<and> WEXITSTATUS 10752 = 42 \<and>
   verdict (parse_validator_results float_decimal True ''validate'' 10752 [(''score.txt'', ''abc'')])
     = Some JE"
  using ex_status_42 ex_status_43 ex_float_abc
  by (simp add: parse_validator_results_def new_SubmissionResult_def Let_def)

lemma match_digits_SomeD:
  assumes "match_digits s = Some t"
  shows "\<exists>d. d \<noteq> [] \<and> list_all is_digit d \<and> s = d @ t"
proof -
  from assms have d: "takeWhile is_digit s \<noteq> []" and t: "t = dropWhile is_digit s"
    by (auto simp: match_digits_def split: if_splits)
  have "list_all is_digit (takeWhile is_digit s)"
    by (simp add: list_all_iff) (metis set_takeWhileD)
  moreover have "s = takeWhile is_digit s @ t"
    unfolding t by simp
  ultimately show ?thesis using d by blast
qed

lemma match_lit_SomeD: "match_lit l s = Some t \<Longrightarrow> s = l @ t"
  by (auto simp: match_lit_def split: if_splits) (metis append_take_drop_id)

lemma is_digit_not_space: "is_digit c \<Longrightarrow> \<not> is_space c"
  by (auto simp: is_digit_def is_space_def ord_def)

lemma py_split_space: "is_space c \<Longrightarrow> py_split (c # t) = py_split t"
  by (simp add: py_split.simps [of "c # t"] py_split.simps [of t])

lemma py_split_token:
  assumes "w \<noteq> []" and "\<forall>c \<in> set w. \<not> is_space c" and "is_space x"
  shows "py_split (w @ x # t) = w # py_split t"
proof -
  from assms(1) obtain c cs where w: "w = c # cs" by (cases w) auto
  with assms(2) have c: "\<not> is_space c" and cs: "\<forall>c \<in> set cs. \<not> is_space c" by auto
  have tw: "takeWhile (\<lambda>x. \<not> is_space x) (cs @ x # t) = cs"
    using cs assms(3) by (simp add: takeWhile_append2)
  have dw: "dropWhile (\<lambda>x. \<not> is_space x) (cs @ x # t) = x # t"
    using cs assms(3) by (simp add: dropWhile_append2)
  show ?thesis
    unfolding w
    using c by (simp add: py_split.simps [of "c # cs @ x # t"] tw dw py_split_space [OF assms(3)])
qed


lemma re_match_split:
  assumes "interactive_output_re_match s"
  shows "\<exists>d1 d2 d3 d4 d5 d6 rest.
           d1 \<noteq> [] \<and> list_all is_digit d1 \<and> d4 \<noteq> [] \<and> list_all is_digit d4 \<and>
           py_split s = d1 # (d2 @ ''.'' @ d3) # d4 # (d5 @ ''.'' @ d6) # py_split rest"
proof -
  from assms obtain t1 t2 t3 t4 t5 t6 t7 t8 t9 t10 t11 t12 where
    m: "match_digits s = Some t1" "match_lit '' '' t1 = Some t2"
       "match_digits t2 = Some t3" "match_lit ''.'' t3 = Some t4"
       "match_digits t4 = Some t5" "match_lit '' '' t5 = Some t6"
       "match_digits t6 = Some t7" "match_lit '' '' t7 = Some t8"
       "match_digits t8 = Some t9" "match_lit ''.'' t9 = Some t10"
       "match_digits t10 = Some t11" "match_lit '' '' t11 = Some t12"
    by (auto simp: interactive_output_re_match_def bind_eq_Some_conv split: option.splits)
  from m(1) obtain d1 where d1: "d1 \<noteq> []" "list_all is_digit d1" "s = d1 @ t1"
    using match_digits_SomeD by blast
  from m(3) obtain d2 where d2: "d2 \<noteq> []" "list_all is_digit d2" "t2 = d2 @ t3"
    using match_digits_SomeD by blast
  from m(5) obtain d3 where d3: "d3 \<noteq> []" "list_all is_digit d3" "t4 = d3 @ t5"
    using match_digits_SomeD by blast
  from m(7) obtain d4 where d4: "d4 \<noteq> []" "list_all is_digit d4" "t6 = d4 @ t7"
    using match_digits_SomeD by blast
  from m(9) obtain d5 where d5: "d5 \<noteq> []" "list_all is_digit d5" "t8 = d5 @ t9"
    using match_digits_SomeD by blast
  from m(11) obtain d6 where d6: "d6 \<noteq> []" "list_all is_digit d6" "t10 = d6 @ t11"
    using match_digits_SomeD by blast
  have sp: "is_space (CHR '' '')" by (simp add: is_space_def ord_def)
  have dot: "\<not> is_space (CHR ''.'')" by (simp add: is_space_def ord_def)
  have ns: "list_all is_digit d \<Longrightarrow> \<forall>c \<in> set d. \<not> is_space c" for d
    by (auto simp: list_all_iff is_digit_not_space)
  have e1: "s = d1 @ CHR '' '' # t2"
    using d1(3) match_lit_SomeD [OF m(2)] by simp
  have e2: "t2 = (d2 @ ''.'' @ d3) @ CHR '' '' # t6"
    using d2(3) match_lit_SomeD [OF m(4)] d3(3) match_lit_SomeD [OF m(6)] by simp
  have e3: "t6 = d4 @ CHR '' '' # t8"
    using d4(3) match_lit_SomeD [OF m(8)] by simp
  have e4: "t8 = (d5 @ ''.'' @ d6) @ CHR '' '' # t12"
    using d5(3) match_lit_SomeD [OF m(10)] d6(3) match_lit_SomeD [OF m(12)] by simp
  have p1: "py_split s = d1 # py_split t2"
    unfolding e1 using d1(1) ns [OF d1(2)] sp by (rule py_split_token)
  have n2: "\<forall>c \<in> set (d2 @ ''.'' @ d3). \<not> is_space c"
    using ns [OF d2(2)] ns [OF d3(2)] dot by auto
  have p2: "py_split t2 = (d2 @ ''.'' @ d3) # py_split t6"
    unfolding e2 using n2 sp by (intro py_split_token) simp_all
  have p3: "py_split t6 = d4 # py_split t8"
    unfolding e3 using d4(1) ns [OF d4(2)] sp by (rule py_split_token)
  have n4: "\<forall>c \<in> set (d5 @ ''.'' @ d6). \<not> is_space c"
    using ns [OF d5(2)] ns [OF d6(2)] dot by auto
  have p4: "py_split t8 = (d5 @ ''.'' @ d6) # py_split t12"
    unfolding e4 using n4 sp by (intro py_split_token) simp_all
  from p1 p2 p3 p4 d1 d4 show ?thesis by auto
qed

lemma re_match_py_int:
  assumes "interactive_output_re_match s"
    and "py_split s = [val_status_str, val_runtime_str, sub_status_str, sub_runtime_str, first]"
  shows "\<exists>val_status sub_status.
           py_int val_status_str = Inr val_status \<and> py_int sub_status_str = Inr sub_status"
proof -
  from re_match_split [OF assms(1)] assms(2)
  have "val_status_str \<noteq> [] \<and> list_all is_digit val_status_str \<and>
        sub_status_str \<noteq> [] \<and> list_all is_digit sub_status_str"
    by auto
  then show ?thesis by (simp add: py_int_def)
qed

lemma interactive_verdict_of_fields:
  assumes "i_compiled v" and "\<not> is_RTE (i_status v)"
    and "interactive_output_re_match (interactive_output v)"
    and "py_split (interactive_output v) =
           [val_status_str, val_runtime_str, sub_status_str, sub_runtime_str, first]"
    and "py_int val_status_str = Inr val_status"
    and "py_int sub_status_str = Inr sub_status"
    and "float sub_runtime_str = Inr sub_runtime"
  shows "let res = (if (\<not> WIFEXITED val_status \<or>
                      (WEXITSTATUS val_status \<noteq> 42 \<and> WEXITSTATUS val_status \<noteq> 43)) \<or>
                     (WIFEXITED val_status \<and> WEXITSTATUS val_status = 43 \<and> first = ''validator'')
                 then (parse_validator_results float custom_score (i_val_name v) val_status (i_feedback v))
                        \<lparr>runtime := min sub_runtime (of_int timelim)\<rparr>
                 else if is_TLE sub_status True
                 then (new_SubmissionResult (Some TLE) None None None)\<lparr>runtime := sub_runtime\<rparr>
                 else if is_RTE sub_status
                 then (new_SubmissionResult (Some RTE) None None None)\<lparr>runtime := sub_runtime\<rparr>
                 else (parse_validator_results float custom_score (i_val_name v) val_status (i_feedback v))
                        \<lparr>runtime := sub_runtime\<rparr>)
                \<lparr>validator_first := (first = ''validator'')\<rparr>
         in interactive_round float custom_score timelim res_before a v = (Inr res, a) \<and>
            validate_interactive float custom_score True timelim a [v] = (Inr res, a)"
proof -
  let ?res = "(if (\<not> WIFEXITED val_status \<or>
                      (WEXITSTATUS val_status \<noteq> 42 \<and> WEXITSTATUS val_status \<noteq> 43)) \<or>
                     (WIFEXITED val_status \<and> WEXITSTATUS val_status = 43 \<and> first = ''validator'')
                 then (parse_validator_results float custom_score (i_val_name v) val_status (i_feedback v))
                        \<lparr>runtime := min sub_runtime (of_int timelim)\<rparr>
                 else if is_TLE sub_status True
                 then (new_SubmissionResult (Some TLE) None None None)\<lparr>runtime := sub_runtime\<rparr>
                 else if is_RTE sub_status
                 then (new_SubmissionResult (Some RTE) None None None)\<lparr>runtime := sub_runtime\<rparr>
                 else (parse_validator_results float custom_score (i_val_name v) val_status (i_feedback v))
                        \<lparr>runtime := sub_runtime\<rparr>)
                \<lparr>validator_first := (first = ''validator'')\<rparr>"
  have iv: "interactive_verdict float custom_score timelim v = Inr ?res"
    using assms(4-7) by (simp add: interactive_verdict_def Let_def min_def)
  have r: "interactive_round float custom_score timelim r a v = (Inr ?res, a)" for r
    using assms(2,3) iv by (simp add: interactive_round_def)
  have "validate_interactive float custom_score True timelim a [v] = (Inr ?res, a)"
    using assms(1) r by (simp add: validate_interactive_def Let_def)
  with r show ?thesis by (simp add: Let_def)
qed

text \<open>
  C2: for a validator that is there and compiles, when the coordinator did not crash and
  its output matches the expected line and splits into its five fields, the fields of the
  two statuses read as integers \<open>val_status\<close> and \<open>sub_status\<close>; let \<open>sub_runtime\<close> be
  what \<^verbatim>\<open>float\<close> reads from the fourth field. If the validator's status is JE (not
  exited, or exited with something else than 42 and 43), or it is WA (43) and the validator
  exited first, the result is what \<^verbatim>\<open>_parse_validator_results\<close> makes of the validator's
  status, with the submission's runtime cut down to \<open>timelim\<close>; otherwise it is TLE if the
  submission's status is a TLE (with \<^verbatim>\<open>SIGUSR1\<close> allowed), otherwise RTE if that status is
  an RTE, otherwise the validator's parsed result again. \<open>validator_first\<close> of the result
  says whether the last field is \<^verbatim>\<open>validator\<close>. No error is reported. This is the result
  of the round of the loop for this validator, whatever the result \<open>res_before\<close> before it, and
  so what \<^verbatim>\<open>validate_interactive\<close> returns when this is the only validator.
\<close>

theorem interactive_verdict_precedence:
  assumes "i_compiled v" and "\<not> is_RTE (i_status v)"
    and "interactive_output_re_match (interactive_output v)"
    and "py_split (interactive_output v) =
           [val_status_str, val_runtime_str, sub_status_str, sub_runtime_str, first]"
    and "float sub_runtime_str = Inr sub_runtime"
  shows "\<exists>val_status sub_status.
           py_int val_status_str = Inr val_status \<and> py_int sub_status_str = Inr sub_status \<and>
           (let res = (if (\<not> WIFEXITED val_status \<or>
                      (WEXITSTATUS val_status \<noteq> 42 \<and> WEXITSTATUS val_status \<noteq> 43)) \<or>
                     (WIFEXITED val_status \<and> WEXITSTATUS val_status = 43 \<and> first = ''validator'')
                 then (parse_validator_results float custom_score (i_val_name v) val_status (i_feedback v))
                        \<lparr>runtime := min sub_runtime (of_int timelim)\<rparr>
                 else if is_TLE sub_status True
                 then (new_SubmissionResult (Some TLE) None None None)\<lparr>runtime := sub_runtime\<rparr>
                 else if is_RTE sub_status
                 then (new_SubmissionResult (Some RTE) None None None)\<lparr>runtime := sub_runtime\<rparr>
                 else (parse_validator_results float custom_score (i_val_name v) val_status (i_feedback v))
                        \<lparr>runtime := sub_runtime\<rparr>)
                \<lparr>validator_first := (first = ''validator'')\<rparr>
            in interactive_round float custom_score timelim res_before a v = (Inr res, a) \<and>
               validate_interactive float custom_score True timelim a [v] = (Inr res, a))"
proof -
  from re_match_py_int [OF assms(3,4)] obtain val_status sub_status where
    i: "py_int val_status_str = Inr val_status" "py_int sub_status_str = Inr sub_status"
    by blast
  from assms(1-4) i assms(5)
  have "let res = (if (\<not> WIFEXITED val_status \<or>
                      (WEXITSTATUS val_status \<noteq> 42 \<and> WEXITSTATUS val_status \<noteq> 43)) \<or>
                     (WIFEXITED val_status \<and> WEXITSTATUS val_status = 43 \<and> first = ''validator'')
                 then (parse_validator_results float custom_score (i_val_name v) val_status (i_feedback v))
                        \<lparr>runtime := min sub_runtime (of_int timelim)\<rparr>
                 else if is_TLE sub_status True
                 then (new_SubmissionResult (Some TLE) None None None)\<lparr>runtime := sub_runtime\<rparr>
                 else if is_RTE sub_status
                 then (new_SubmissionResult (Some RTE) None None None)\<lparr>runtime := sub_runtime\<rparr>
                 else (parse_validator_results float custom_score (i_val_name v) val_status (i_feedback v))
                        \<lparr>runtime := sub_runtime\<rparr>)
                \<lparr>validator_first := (first = ''validator'')\<rparr>
        in interactive_round float custom_score timelim res_before a v = (Inr res, a) \<and>
           validate_interactive float custom_score True timelim a [v] = (Inr res, a)"
    by (rule interactive_verdict_of_fields)
  with i show ?thesis by blast
qed

lemma ex_split:
  "py_split ''11008 0.50 24 11.00 validator'' =
     [''11008'', ''0.50'', ''24'', ''11.00'', ''validator'']"
  by code_simp

lemma ex_match: "interactive_output_re_match ''11008 0.50 24 11.00 validator''"
  by code_simp

lemma ex_float_runtime: "float_decimal ''11.00'' = Inr 11"
  by code_simp

lemma ex_int_val: "py_int ''11008'' = Inr 11008"
  by code_simp

lemma ex_int_sub: "py_int ''24'' = Inr 24"
  by code_simp

text \<open>
  The validator exits first with 43 and the submission is then killed after 11 seconds,
  under a limit of 10: the result is WA with runtime 10.
\<close>

theorem interactive_verdict_precedence_witness:
  "validate_interactive float_decimal False True 10 (ex_aspect True)
     [ex_interactive_run ''11008 0.50 24 11.00 validator''] =
   (Inr ((new_SubmissionResult (Some WA) None None
            (Some (''=== judgemessage.txt: ==='' @ [CHR 0x0A] @ ''wrong'')))
         \<lparr>runtime := 10, validator_first := True\<rparr>), ex_aspect True)"
  using interactive_verdict_precedence [where v = "ex_interactive_run ''11008 0.50 24 11.00 validator''"
      and val_status_str = "''11008''" and val_runtime_str = "''0.50''" and sub_status_str = "''24''"
      and sub_runtime_str = "''11.00''" and first = "''validator''" and float = float_decimal
      and sub_runtime = 11 and custom_score = False and timelim = 10
      and res_before = "new_SubmissionResult (Some JE) None None None" and a = "ex_aspect True"]
    ex_split ex_match ex_float_runtime ex_int_val ex_int_sub ex_status_43 ex_feedback
  by (simp add: ex_interactive_run_def is_RTE_def WIFEXITED_def WEXITSTATUS_def WTERMSIG_def
      parse_validator_results_def Let_def)

section \<open>Properties of the time limits\<close>

lemma py_max_Max: "py_max (x # xs) = Inr (Max (set (x # xs)))"
proof -
  have "foldl (\<lambda>m y. if y > m then y else m) x xs = Max (insert x (set xs))" for x :: real and xs
  proof (induction xs arbitrary: x)
    case Nil
    show ?case by simp
  next
    case (Cons y ys)
    have "Max (insert x (insert y (set ys))) = Max (insert (max x y) (set ys))"
      by (cases "set ys = {}") (simp_all add: max.assoc)
    with Cons show ?case
      by (simp add: max_def insert_commute)
  qed
  then show ?thesis by simp
qed

lemma int_of_float_negative:
  assumes "y < 0"
  shows "int_of_float y \<le> 0"
proof -
  from assms have "\<lceil>y\<rceil> \<le> 0" by (simp add: ceiling_le_iff)
  with assms show ?thesis by (simp add: int_of_float_def)
qed

text \<open>
  What the rounding of a limit needs of the sum \<open>r\<close> that floating-point addition gives
  for \<open>0.5 + y\<close>: it has the integer part of the exact sum from \<open>y = 0.5\<close> on, and
  stays below 2 for smaller \<open>y\<close>. Addition of doubles is like that for every \<open>y\<close> below
  \<open>2 ^ 52\<close>.
\<close>

lemma int_of_float_half:
  assumes "(1 / 2 \<le> y \<longrightarrow> \<lfloor>r\<rfloor> = \<lfloor>1 / 2 + y\<rfloor>) \<and> (y < 1 / 2 \<longrightarrow> r < 2)"
  shows "(1 / 2 \<le> y \<and> int_of_float r = round y) \<or>
         (y < 1 / 2 \<and> int_of_float r \<le> 1 \<and> round y \<le> 0)"
proof (cases "1 / 2 \<le> y")
  case True
  with assms have f: "\<lfloor>r\<rfloor> = \<lfloor>1 / 2 + y\<rfloor>" by simp
  from True have "1 \<le> \<lfloor>1 / 2 + y\<rfloor>" by (simp add: le_floor_iff)
  with f have "1 \<le> \<lfloor>r\<rfloor>" by simp
  then have "0 \<le> r" by (simp add: le_floor_iff)
  then have "int_of_float r = \<lfloor>r\<rfloor>" by (simp add: int_of_float_def)
  with f True show ?thesis by (simp add: round_def add.commute)
next
  case False
  then have y: "y < 1 / 2" by simp
  with assms have r: "r < 2" by simp
  have "int_of_float r \<le> 1"
  proof (cases "0 \<le> r")
    case True
    from r have "\<lfloor>r\<rfloor> \<le> 1" by (simp add: floor_le_iff)
    with True show ?thesis by (simp add: int_of_float_def)
  next
    case False
    then have "r < 0" by simp
    from int_of_float_negative [OF this] show ?thesis by simp
  qed
  moreover from y have "round y \<le> 0" by (simp add: round_def floor_le_iff)
  ultimately show ?thesis using y by simp
qed

lemma max_int_of_float_round:
  assumes "(1 / 2 \<le> y \<longrightarrow> \<lfloor>r\<rfloor> = \<lfloor>1 / 2 + y\<rfloor>) \<and> (y < 1 / 2 \<longrightarrow> r < 2)" and "1 \<le> k"
  shows "max k (int_of_float r) = max k (round y)"
  using int_of_float_half [OF assms(1)] assms(2) by arith

lemma max_min_int_of_float_round:
  assumes "(1 / 2 \<le> y \<longrightarrow> \<lfloor>r\<rfloor> = \<lfloor>1 / 2 + y\<rfloor>) \<and> (y < 1 / 2 \<longrightarrow> r < 2)"
  shows "max 1 (min (int_of_float r) m) = max 1 (min (round y) m)"
  using int_of_float_half [OF assms] by arith

text \<open>
  C6: when at least one runtime of an accepted submission was collected (and the safety
  margin is not zero, by which the code divides), let \<open>exact\<close> be the product of the
  largest runtime and the time multiplier, \<open>quotient\<close> the quotient of \<open>exact\<close> by the
  safety margin and \<open>product\<close> their product, each as floating-point arithmetic gives it.
  The limits inferred are \<open>timelim = max 1 (round exact)\<close>,
  \<open>timelim_margin_lo = max 1 (min (round quotient) (timelim - 1))\<close> and
  \<open>timelim_margin = max (timelim + 1) (round product)\<close>, where \<open>round\<close> is the nearest
  integer, a half going up. The code rounds by adding 0.5 and cutting the fraction off; the
  hypothesis on the three sums is the one described above, and below 0.5 each value is
  replaced by its lower bound.
\<close>

theorem infer_limits_formula:
  fixes F :: float_arith
  defines "half_sum y \<equiv>
    (1 / 2 \<le> y \<longrightarrow> \<lfloor>fadd F 0.5 y\<rfloor> = \<lfloor>1 / 2 + y\<rfloor>) \<and> (y < 1 / 2 \<longrightarrow> fadd F 0.5 y < 2)"
  assumes "runtimes \<noteq> []" and "safety_margin \<noteq> 0"
    and "half_sum (fmul F (Max (set runtimes)) time_multiplier)"
    and "half_sum (fdiv F (fmul F (Max (set runtimes)) time_multiplier) safety_margin)"
    and "half_sum (fmul F (fmul F (Max (set runtimes)) time_multiplier) safety_margin)"
  shows "let exact = fmul F (Max (set runtimes)) time_multiplier;
             quotient = fdiv F exact safety_margin;
             product = fmul F exact safety_margin;
             timelim = max 1 (round exact)
         in infer_limits F runtimes time_multiplier safety_margin old =
              Inr (timelim,
                   max 1 (min (round quotient) (timelim - 1)),
                   max (timelim + 1) (round product))"
proof -
  from assms(2) obtain x xs where r: "runtimes = x # xs" by (cases runtimes) auto
  let ?exact = "fmul F (Max (set runtimes)) time_multiplier"
  let ?t = "max 1 (round ?exact)"
  have t: "max 1 (int_of_float (fadd F 0.5 ?exact)) = ?t"
    using assms(4) unfolding half_sum_def by (intro max_int_of_float_round) simp_all
  have lo: "max 1 (min (int_of_float (fadd F 0.5 (fdiv F ?exact safety_margin))) m) =
            max 1 (min (round (fdiv F ?exact safety_margin)) m)" for m
    using assms(5) unfolding half_sum_def by (intro max_min_int_of_float_round) simp_all
  have "1 \<le> ?t + 1" by simp
  then have hi: "max (?t + 1) (int_of_float (fadd F 0.5 (fmul F ?exact safety_margin))) =
            max (?t + 1) (round (fmul F ?exact safety_margin))"
    using assms(6) unfolding half_sum_def by (intro max_int_of_float_round) simp_all
  have "infer_limits F runtimes time_multiplier safety_margin old =
          Inr (?t, max 1 (min (round (fdiv F ?exact safety_margin)) (?t - 1)),
               max (?t + 1) (round (fmul F ?exact safety_margin)))"
    using assms(3) t lo hi py_max_Max [of x xs]
    unfolding r by (simp add: infer_limits_def Let_def)
  then show ?thesis by (simp add: Let_def)
qed

text \<open>
  The slowest accepted submission takes 1.4 seconds, multiplier and safety margin are 2:
  the limits are 3, 1 and 6. The runtime is the double that 1.4 denotes,
  \<open>6305039478318694 / 2 ^ 52\<close>. Doubling and halving a double is exact, and the three
  sums with 0.5 are rounded within their integer parts, so that the arithmetic without
  rounding gives the limits of the code here.
\<close>

theorem infer_limits_formula_witness:
  "infer_limits exact_arith [6305039478318694 / 4503599627370496] 2 2 (300, 300, 300) =
     Inr (3, 1, 6)"
  using infer_limits_formula [where F = exact_arith
      and runtimes = "[6305039478318694 / 4503599627370496]"
      and time_multiplier = 2 and safety_margin = 2 and old = "(300, 300, 300)"]
  by (simp add: Let_def round_def exact_arith_def)

section \<open>Properties of a run on a test case\<close>

lemma set_ac_runtime_fields:
  "verdict (set_ac_runtime r) = verdict r"
  "runtime (set_ac_runtime r) = runtime r"
  "validator_first (set_ac_runtime r) = validator_first r"
  "score (set_ac_runtime r) = score r"
  by (simp_all add: set_ac_runtime_def)

lemma init_result_for_testcase_fields:
  "verdict (init_result_for_testcase P self c r) = verdict r"
  "runtime (init_result_for_testcase P self c r) = runtime r"
  "validator_first (init_result_for_testcase P self c r) = validator_first r"
  "testcase (init_result_for_testcase P self c r) = Some c"
  by (simp_all add: init_result_for_testcase_def Let_def)

lemma classify_low:
  "runtime rh \<le> of_int lo \<Longrightarrow>
     classify rh timelim lo = (set_ac_runtime rh, set_ac_runtime rh, set_ac_runtime rh)"
  by (simp add: classify_def)

lemma classify_mid:
  "\<not> runtime rh \<le> of_int lo \<Longrightarrow> runtime rh \<le> of_int timelim \<Longrightarrow>
     classify rh timelim lo =
       (set_ac_runtime rh,
        set_ac_runtime ((new_SubmissionResult (Some TLE) None None None)\<lparr>runtime := runtime rh\<rparr>),
        set_ac_runtime rh)"
  by (simp add: classify_def)

lemma classify_WA:
  "\<not> runtime rh \<le> of_int lo \<Longrightarrow> \<not> runtime rh \<le> of_int timelim \<Longrightarrow>
   validator_first rh \<Longrightarrow> verdict rh = Some WA \<Longrightarrow>
     classify rh timelim lo =
       (set_ac_runtime ((new_SubmissionResult (Some WA) None None None)
                          \<lparr>validator_first := True, runtime := of_int lo\<rparr>),
        set_ac_runtime ((new_SubmissionResult (Some WA) None None None)
                          \<lparr>validator_first := True, runtime := of_int lo\<rparr>),
        set_ac_runtime (rh\<lparr>runtime := of_int lo\<rparr>))"
  by (simp add: classify_def Let_def)

lemma classify_TLE:
  assumes "\<not> runtime rh \<le> of_int lo" and "\<not> runtime rh \<le> of_int timelim"
    and "\<not> (validator_first rh \<and> verdict rh = Some WA)"
  shows "classify rh timelim lo =
       (set_ac_runtime ((new_SubmissionResult (Some TLE) None None None)\<lparr>runtime := runtime rh\<rparr>),
        set_ac_runtime ((new_SubmissionResult (Some TLE) None None None)\<lparr>runtime := runtime rh\<rparr>),
        set_ac_runtime rh)"
proof -
  from assms(3) have c: "(validator_first rh \<and> verdict rh = Some WA) = False" by simp
  show ?thesis using assms(1,2) by (simp add: classify_def Let_def c)
qed

lemma classify_ordered:
  "case classify rh timelim lo of (res, res_lo, res_hi) \<Rightarrow>
     verdict res_hi = verdict rh \<and>
     (runtime rh \<le> of_int lo \<longrightarrow> res_lo = res_hi \<and> res = res_hi \<and> runtime res_hi = runtime rh) \<and>
     (of_int lo < runtime rh \<and> runtime rh \<le> of_int timelim \<longrightarrow>
        verdict res_lo = Some TLE \<and> res = res_hi \<and> runtime res_hi = runtime rh) \<and>
     (of_int lo < runtime rh \<and> of_int timelim < runtime rh \<and>
      validator_first rh \<and> verdict rh = Some WA \<longrightarrow>
        verdict res = Some WA \<and> validator_first res \<and> res_lo = res \<and>
        runtime res_hi = of_int lo) \<and>
     (of_int lo < runtime rh \<and> of_int timelim < runtime rh \<and>
      \<not> (validator_first rh \<and> verdict rh = Some WA) \<longrightarrow>
        verdict res = Some TLE \<and> res_lo = res \<and> runtime res_hi = runtime rh)"
proof (cases "runtime rh \<le> of_int lo")
  case True
  then show ?thesis by (simp add: classify_low set_ac_runtime_fields)
next
  case lo: False
  show ?thesis
  proof (cases "runtime rh \<le> of_int timelim")
    case True
    with lo show ?thesis
      by (simp add: classify_mid set_ac_runtime_fields new_SubmissionResult_def)
  next
    case tl: False
    show ?thesis
    proof (cases "validator_first rh \<and> verdict rh = Some WA")
      case True
      then have "validator_first rh" and "verdict rh = Some WA" by simp_all
      with lo tl show ?thesis
        by (simp add: classify_WA set_ac_runtime_fields new_SubmissionResult_def)
    next
      case False
      from classify_TLE [OF lo tl False] lo tl False show ?thesis
        by (simp add: set_ac_runtime_fields new_SubmissionResult_def)
    qed
  qed
qed

lemma run_submission_real_own:
  "reuse_result_from (st c) = None \<Longrightarrow>
     run_submission_real float P st a c key = Some (run_submission_own float P st a c key)"
  by (subst run_submission_real.simps) simp

lemma run_submission_real_alias:
  "reuse_result_from (st c) = Some target \<Longrightarrow>
     run_submission_real float P st a c key = run_submission_real float P st a target key"
  by (subst run_submission_real.simps) simp

lemma cache_lookup_miss:
  assumes "\<forall>t. result_cache (st c) \<noteq> Some (key, t)"
  shows "(case result_cache (st c) of
            Some (k, t) \<Rightarrow> if k = key then Some t else None
          | None \<Rightarrow> None) = None"
proof (cases "result_cache (st c)")
  case None
  then show ?thesis by simp
next
  case (Some kt)
  obtain k t where kt: "kt = (k, t)" by (cases kt)
  with Some assms have "k \<noteq> key" by auto
  with Some kt show ?thesis by simp
qed

lemma run_submission_own_miss:
  assumes "\<forall>t. result_cache (st c) \<noteq> Some ((sub, args, timelim, lo, hi), t)"
    and "run_high float P a sub c hi = (Inr rh, a')"
  shows "run_submission_own float P st a c (sub, args, timelim, lo, hi) =
           (Inr (classify rh timelim lo, False),
            st(c := (st c)\<lparr>result_cache := Some ((sub, args, timelim, lo, hi), classify rh timelim lo)\<rparr>),
            a')"
  using assms cache_lookup_miss [of st c "(sub, args, timelim, lo, hi)"]
  by (simp add: run_submission_own_def Let_def)

text \<open>
  C1: for a test case that is no alias and whose cache does not hold the key, let \<open>rh\<close>
  be the result of the run under the high limit and \<open>r\<close> its runtime.
  \<^verbatim>\<open>run_submission\<close> returns a triple \<open>(res, res_lo, res_hi)\<close> with the verdict of
  \<open>rh\<close> in \<open>res_hi\<close>, classified by the first of these cases that applies: if
  \<open>r \<le> lo\<close>, all three are the same result; if \<open>lo < r \<le> timelim\<close> (also when \<open>r\<close>
  is \<open>timelim\<close> itself), \<open>res_lo\<close> is TLE and \<open>res\<close> is \<open>res_hi\<close>; if \<open>r\<close> exceeds
  both and \<open>rh\<close> is a WA of a validator that exited first, \<open>res\<close> and \<open>res_lo\<close> are
  WA with \<open>validator_first\<close> set and the runtime of \<open>res_hi\<close> is \<open>lo\<close>; in every other
  case where \<open>r\<close> exceeds both, \<open>res\<close> and \<open>res_lo\<close> are TLE. For limits in ascending
  order, \<open>lo \<le> timelim\<close>, a runtime above \<open>timelim\<close> exceeds both.
\<close>

theorem run_submission_classification:
  assumes "reuse_result_from (st c) = None"
    and "\<forall>t. result_cache (st c) \<noteq> Some ((sub, args, timelim, lo, hi), t)"
    and "run_high float P a sub c hi = (Inr rh, a')"
  shows "\<exists>res res_lo res_hi st'.
           run_submission float P st a c (sub, args, timelim, lo, hi) =
             Some (Inr (res, res_lo, res_hi), st', a') \<and>
           verdict res_hi = verdict rh \<and>
           (runtime rh \<le> of_int lo \<longrightarrow>
              res_lo = res_hi \<and> res = res_hi \<and> runtime res_hi = runtime rh) \<and>
           (of_int lo < runtime rh \<and> runtime rh \<le> of_int timelim \<longrightarrow>
              verdict res_lo = Some TLE \<and> res = res_hi \<and> runtime res_hi = runtime rh) \<and>
           (of_int lo < runtime rh \<and> of_int timelim < runtime rh \<and>
            validator_first rh \<and> verdict rh = Some WA \<longrightarrow>
              verdict res = Some WA \<and> validator_first res \<and>
              verdict res_lo = Some WA \<and> validator_first res_lo \<and>
              runtime res_hi = of_int lo) \<and>
           (of_int lo < runtime rh \<and> of_int timelim < runtime rh \<and>
            \<not> (validator_first rh \<and> verdict rh = Some WA) \<longrightarrow>
              verdict res = Some TLE \<and> verdict res_lo = Some TLE \<and> runtime res_hi = runtime rh)"
proof -
  obtain r rl rhi where cl: "classify rh timelim lo = (r, rl, rhi)"
    by (cases "classify rh timelim lo") auto
  let ?key = "(sub, args, timelim, lo, hi)"
  let ?st' = "st(c := (st c)\<lparr>result_cache := Some (?key, (r, rl, rhi))\<rparr>)"
  let ?i = "init_result_for_testcase P (st c) c"
  have run: "run_submission float P st a c ?key = Some (Inr (?i r, ?i rl, ?i rhi), ?st', a')"
    using assms cl run_submission_own_miss [of st c sub args timelim lo hi float P a rh a']
    by (simp add: run_submission_def run_submission_real_own)
  from classify_ordered [where rh = rh and timelim = timelim and lo = lo] cl
  have p: "verdict rhi = verdict rh \<and>
     (runtime rh \<le> of_int lo \<longrightarrow> rl = rhi \<and> r = rhi \<and> runtime rhi = runtime rh) \<and>
     (of_int lo < runtime rh \<and> runtime rh \<le> of_int timelim \<longrightarrow>
        verdict rl = Some TLE \<and> r = rhi \<and> runtime rhi = runtime rh) \<and>
     (of_int lo < runtime rh \<and> of_int timelim < runtime rh \<and>
      validator_first rh \<and> verdict rh = Some WA \<longrightarrow>
        verdict r = Some WA \<and> validator_first r \<and> rl = r \<and>
        runtime rhi = of_int lo) \<and>
     (of_int lo < runtime rh \<and> of_int timelim < runtime rh \<and>
      \<not> (validator_first rh \<and> verdict rh = Some WA) \<longrightarrow>
        verdict r = Some TLE \<and> rl = r \<and> runtime rhi = runtime rh)"
    by simp
  show ?thesis
  proof (intro exI conjI)
    show "run_submission float P st a c ?key = Some (Inr (?i r, ?i rl, ?i rhi), ?st', a')"
      by (rule run)
    show "verdict (?i rhi) = verdict rh"
      using p by (simp add: init_result_for_testcase_fields)
    show "runtime rh \<le> of_int lo \<longrightarrow>
            ?i rl = ?i rhi \<and> ?i r = ?i rhi \<and> runtime (?i rhi) = runtime rh"
      using p by (simp add: init_result_for_testcase_fields)
    show "of_int lo < runtime rh \<and> runtime rh \<le> of_int timelim \<longrightarrow>
            verdict (?i rl) = Some TLE \<and> ?i r = ?i rhi \<and> runtime (?i rhi) = runtime rh"
      using p by (simp add: init_result_for_testcase_fields)
    show "of_int lo < runtime rh \<and> of_int timelim < runtime rh \<and>
            validator_first rh \<and> verdict rh = Some WA \<longrightarrow>
              verdict (?i r) = Some WA \<and> validator_first (?i r) \<and>
              verdict (?i rl) = Some WA \<and> validator_first (?i rl) \<and>
              runtime (?i rhi) = of_int lo"
      using p by (simp add: init_result_for_testcase_fields)
    show "of_int lo < runtime rh \<and> of_int timelim < runtime rh \<and>
            \<not> (validator_first rh \<and> verdict rh = Some WA) \<longrightarrow>
              verdict (?i r) = Some TLE \<and> verdict (?i rl) = Some TLE \<and>
              runtime (?i rhi) = runtime rh"
      using p by (simp add: init_result_for_testcase_fields)
  qed
qed


definition ex_sub_run :: "nat \<Rightarrow> tcid \<Rightarrow> int \<Rightarrow> int \<times> real" where
  "ex_sub_run sub c timelim = (0, 2)"

definition ex_validator_runs :: "nat \<Rightarrow> tcid \<Rightarrow> validator_run list" where
  "ex_validator_runs sub c =
     [\<lparr>compiled = True, val_name = ''validate'', run_status = 10752, feedback = []\<rparr>]"

definition ex_interactive_runs :: "nat \<Rightarrow> tcid \<Rightarrow> int \<Rightarrow> interactive_run list" where
  "ex_interactive_runs sub c timelim = [ex_interactive_run ''11008 0.50 24 11.00 validator'']"

definition ex_problem :: "bool \<Rightarrow> nat problem" where
  "ex_problem interact =
     \<lparr>is_interactive = interact, is_scoring = True, custom_scoring = False, interactive = True,
      sub_run = ex_sub_run, validator_runs = ex_validator_runs,
      interactive_runs = ex_interactive_runs\<rparr>"

definition ex_store :: "tcid \<Rightarrow> (nat, nat) TestCase" where
  "ex_store c =
     (if c = 2 then \<lparr>grading_score = 0, reuse_result_from = Some 3, result_cache = None\<rparr>
      else \<lparr>grading_score = 1, reuse_result_from = None, result_cache = None\<rparr>)"

definition ex_result :: "tcid \<Rightarrow> real \<Rightarrow> SubmissionResult" where
  "ex_result c s =
     \<lparr>verdict = Some AC, score = Some s, reason = None, additional_info = None,
      testcase = Some c, runtime_testcase = Some c, runtime = 2, ac_runtime = 2,
      ac_runtime_testcase = None, validator_first = False\<rparr>"

lemma ex_validate_interactive:
  "validate_interactive float_decimal False True 10 (ex_aspect True)
     [ex_interactive_run ''11008 0.50 24 11.00 validator''] =
   (Inr ((new_SubmissionResult (Some WA) None None
            (Some (''=== judgemessage.txt: ==='' @ [CHR 0x0A] @ ''wrong'')))
         \<lparr>runtime := 10, validator_first := True\<rparr>), ex_aspect True)"
  using ex_split ex_match ex_float_runtime ex_int_val ex_int_sub ex_status_43 ex_feedback
  by (simp add: validate_interactive_def interactive_round_def interactive_verdict_def
      ex_interactive_run_def is_RTE_def WIFEXITED_def WEXITSTATUS_def WTERMSIG_def
      parse_validator_results_def Let_def)

lemma ex_run_high_interactive:
  "run_high float_decimal (ex_problem True) (ex_aspect True) 0 3 10 =
   (Inr ((new_SubmissionResult (Some WA) None None
            (Some (''=== judgemessage.txt: ==='' @ [CHR 0x0A] @ ''wrong'')))
         \<lparr>runtime := 10, validator_first := True\<rparr>), ex_aspect True)"
  using ex_validate_interactive
  by (simp add: run_high_def ex_problem_def ex_interactive_runs_def)

text \<open>
  An interactive run against the limits 5, 3 and 10: the validator exits first with WA,
  the submission is killed later. The result under each limit is WA, and the runtime
  under the high limit is set to 3.
\<close>

theorem run_submission_classification_witness:
  "\<exists>res res_lo res_hi st'.
     run_submission float_decimal (ex_problem True) ex_store (ex_aspect True) 3 (0, 0, 5, 3, 10) =
       Some (Inr (res, res_lo, res_hi), st', ex_aspect True) \<and>
     verdict res_hi = Some WA \<and> verdict res = Some WA \<and> validator_first res \<and>
     verdict res_lo = Some WA \<and> validator_first res_lo \<and> runtime res_hi = 3"
  using run_submission_classification [of ex_store 3 "0::nat" "0::nat" 5 3 10 float_decimal
      "ex_problem True" "ex_aspect True"
      "(new_SubmissionResult (Some WA) None None
            (Some (''=== judgemessage.txt: ==='' @ [CHR 0x0A] @ ''wrong'')))
         \<lparr>runtime := 10, validator_first := True\<rparr>" "ex_aspect True"]
    ex_run_high_interactive
  by (simp add: ex_store_def new_SubmissionResult_def)


lemma run_submission_own_frame:
  assumes "run_submission_own float P st a c key = (out, st', a')"
  shows "(\<forall>d. d \<noteq> c \<longrightarrow> st' d = st d) \<and> grading_score (st' c) = grading_score (st c) \<and>
         reuse_result_from (st' c) = reuse_result_from (st c)"
proof -
  obtain sub args timelim lo hi where k: "key = (sub, args, timelim, lo, hi)"
    by (cases key)
  obtain o' a'' where rh: "run_high float P a sub c hi = (o', a'')"
    by (cases "run_high float P a sub c hi")
  show ?thesis
  proof (cases "case result_cache (st c) of
                  Some (k, t) \<Rightarrow> if k = (sub, args, timelim, lo, hi) then Some t else None
                | None \<Rightarrow> None")
    case (Some t)
    with assms show ?thesis unfolding k by (simp add: run_submission_own_def)
  next
    case None
    show ?thesis
    proof (cases o')
      case (Inl e)
      with assms None rh show ?thesis unfolding k by (simp add: run_submission_own_def)
    next
      case (Inr res_high)
      with assms None rh show ?thesis unfolding k
        by (auto simp: run_submission_own_def Let_def)
    qed
  qed
qed

lemma init_result_for_testcase_score:
  "\<not> is_scoring P \<or> verdict r \<noteq> Some AC \<or> score r \<noteq> None \<or> grading_score s1 = grading_score s2 \<Longrightarrow>
     score (init_result_for_testcase P s1 c1 r) = score (init_result_for_testcase P s2 c2 r)"
  by (auto simp: init_result_for_testcase_def Let_def)

text \<open>
  C8, as the code has it: when \<open>a\<close> is an alias of \<open>b\<close> (which is no alias itself),
  running \<open>a\<close> is running \<open>b\<close>: both calls of \<^verbatim>\<open>_run_submission_real\<close> return the same
  and leave the same store, in which only the cache of \<open>b\<close> can differ from before. The
  triples that \<^verbatim>\<open>run_submission\<close> returns for \<open>a\<close> and for \<open>b\<close> agree in verdict and
  runtime; each is stamped with the case it was asked of and, where the result has no score
  yet in a scoring problem, scored by the group of that case. So the scores agree when the
  problem is not scoring or the two groups give the same score for a case, and the score of
  the main result agrees whenever its verdict is not AC.
\<close>

theorem alias_delegation:
  assumes "reuse_result_from (st a) = Some b" and "reuse_result_from (st b) = None"
  shows "\<exists>out st' asp'.
           run_submission_real float P st asp b key = Some (out, st', asp') \<and>
           run_submission_real float P st asp a key = Some (out, st', asp') \<and>
           (\<forall>c. c \<noteq> b \<longrightarrow> st' c = st c) \<and>
           grading_score (st' b) = grading_score (st b) \<and>
           reuse_result_from (st' b) = reuse_result_from (st b) \<and>
           (case out of
              Inl e \<Rightarrow>
                run_submission float P st asp a key = Some (Inl e, st', asp') \<and>
                run_submission float P st asp b key = Some (Inl e, st', asp')
            | Inr ((r, r_lo, r_hi), reused) \<Rightarrow>
                (\<exists>ra ra_lo ra_hi rb rb_lo rb_hi.
                   run_submission float P st asp a key = Some (Inr (ra, ra_lo, ra_hi), st', asp') \<and>
                   run_submission float P st asp b key = Some (Inr (rb, rb_lo, rb_hi), st', asp') \<and>
                   verdict ra = verdict rb \<and> verdict ra_lo = verdict rb_lo \<and>
                   verdict ra_hi = verdict rb_hi \<and>
                   runtime ra = runtime rb \<and> runtime ra_lo = runtime rb_lo \<and>
                   runtime ra_hi = runtime rb_hi \<and>
                   testcase ra = Some a \<and> testcase rb = Some b \<and>
                   (\<not> is_scoring P \<or> grading_score (st a) = grading_score (st b) \<longrightarrow>
                      score ra = score rb \<and> score ra_lo = score rb_lo \<and> score ra_hi = score rb_hi) \<and>
                   (verdict rb \<noteq> Some AC \<longrightarrow> score ra = score rb)))"
proof -
  obtain out st' asp' where own: "run_submission_own float P st asp b key = (out, st', asp')"
    by (cases "run_submission_own float P st asp b key")
  have rb: "run_submission_real float P st asp b key = Some (out, st', asp')"
    using assms(2) own by (simp add: run_submission_real_own)
  have ra: "run_submission_real float P st asp a key = Some (out, st', asp')"
    using assms(1) rb by (simp add: run_submission_real_alias)
  note frame = run_submission_own_frame [OF own]
  have out: "case out of
              Inl e \<Rightarrow>
                run_submission float P st asp a key = Some (Inl e, st', asp') \<and>
                run_submission float P st asp b key = Some (Inl e, st', asp')
            | Inr ((r, r_lo, r_hi), reused) \<Rightarrow>
                (\<exists>ra ra_lo ra_hi rb rb_lo rb_hi.
                   run_submission float P st asp a key = Some (Inr (ra, ra_lo, ra_hi), st', asp') \<and>
                   run_submission float P st asp b key = Some (Inr (rb, rb_lo, rb_hi), st', asp') \<and>
                   verdict ra = verdict rb \<and> verdict ra_lo = verdict rb_lo \<and>
                   verdict ra_hi = verdict rb_hi \<and>
                   runtime ra = runtime rb \<and> runtime ra_lo = runtime rb_lo \<and>
                   runtime ra_hi = runtime rb_hi \<and>
                   testcase ra = Some a \<and> testcase rb = Some b \<and>
                   (\<not> is_scoring P \<or> grading_score (st a) = grading_score (st b) \<longrightarrow>
                      score ra = score rb \<and> score ra_lo = score rb_lo \<and> score ra_hi = score rb_hi) \<and>
                   (verdict rb \<noteq> Some AC \<longrightarrow> score ra = score rb))"
  proof (cases out)
    case (Inl e)
    then show ?thesis by (simp add: run_submission_def ra rb)
  next
    case (Inr tr)
    obtain r r_lo r_hi reused where tr: "tr = ((r, r_lo, r_hi), reused)"
      by (cases tr) auto
    let ?ia = "init_result_for_testcase P (st a) a"
    let ?ib = "init_result_for_testcase P (st b) b"
    have sa: "run_submission float P st asp a key = Some (Inr (?ia r, ?ia r_lo, ?ia r_hi), st', asp')"
      by (simp add: run_submission_def ra Inr tr)
    have sb: "run_submission float P st asp b key = Some (Inr (?ib r, ?ib r_lo, ?ib r_hi), st', asp')"
      by (simp add: run_submission_def rb Inr tr)
    have sc: "\<not> is_scoring P \<or> grading_score (st a) = grading_score (st b) \<longrightarrow>
                score (?ia x) = score (?ib x)" for x
      using init_result_for_testcase_score [of P x "st a" "st b" a b] by blast
    have sv: "verdict (?ib r) \<noteq> Some AC \<longrightarrow> score (?ia r) = score (?ib r)"
      using init_result_for_testcase_score [of P r "st a" "st b" a b]
      by (simp add: init_result_for_testcase_fields)
    show ?thesis
      unfolding Inr tr sa sb
      using sc sv by (simp add: init_result_for_testcase_fields)
  qed
  from rb ra frame out show ?thesis by blast
qed


definition ex_key :: "(nat, nat) cache_key" where
  "ex_key = (0, 0, 5, 5, 10)"

theorem alias_delegation_witness:
  "\<exists>out st' asp'.
     run_submission_real float_decimal (ex_problem False) ex_store (ex_aspect False) 3 ex_key =
       Some (out, st', asp') \<and>
     run_submission_real float_decimal (ex_problem False) ex_store (ex_aspect False) 2 ex_key =
       Some (out, st', asp') \<and>
     st' 2 = ex_store 2"
proof -
  have a: "reuse_result_from (ex_store 2) = Some 3" by (simp add: ex_store_def)
  have b: "reuse_result_from (ex_store 3) = None" by (simp add: ex_store_def)
  from a b alias_delegation [where st = ex_store and a = 2 and b = 3 and float = float_decimal
      and P = "ex_problem False" and asp = "ex_aspect False" and key = ex_key]
  obtain out st' asp' where
    "run_submission_real float_decimal (ex_problem False) ex_store (ex_aspect False) 3 ex_key =
       Some (out, st', asp')"
    "run_submission_real float_decimal (ex_problem False) ex_store (ex_aspect False) 2 ex_key =
       Some (out, st', asp')"
    "\<forall>c. c \<noteq> 3 \<longrightarrow> st' c = ex_store c"
    by blast
  then show ?thesis by auto
qed

lemma ex_run_high_batch:
  "run_high float_decimal (ex_problem False) (ex_aspect False) 0 3 10 =
     (Inr ((new_SubmissionResult (Some AC) None None None)\<lparr>runtime := 2\<rparr>), ex_aspect False)"
  using ex_status_42
  by (simp add: run_high_def ex_problem_def ex_sub_run_def ex_validator_runs_def validate_def
      parse_validator_results_def is_TLE_def is_RTE_def WIFSIGNALED_def WIFEXITED_def
      WEXITSTATUS_def WTERMSIG_def Let_def)

lemma ex_run_submission_real:
  "map_option fst (run_submission_real float_decimal (ex_problem False) ex_store (ex_aspect False) 3 ex_key)
     = Some (Inr ((set_ac_runtime ((new_SubmissionResult (Some AC) None None None)\<lparr>runtime := 2\<rparr>),
                   set_ac_runtime ((new_SubmissionResult (Some AC) None None None)\<lparr>runtime := 2\<rparr>),
                   set_ac_runtime ((new_SubmissionResult (Some AC) None None None)\<lparr>runtime := 2\<rparr>)),
                  False))"
proof -
  have b: "reuse_result_from (ex_store 3) = None" by (simp add: ex_store_def)
  have c: "\<forall>t. result_cache (ex_store 3) \<noteq> Some ((0, 0, 5, 5, 10), t)" by (simp add: ex_store_def)
  from run_submission_own_miss [where st = ex_store and c = 3, OF c ex_run_high_batch] b
  show ?thesis
    by (simp add: run_submission_real_own ex_key_def classify_low)
qed

text \<open>
  The claim as it stands fails on the score: case 2, in a group that gives 0 for a case,
  is an alias of case 3, in a group that gives 1. The submission is accepted on both, with
  score 0 on case 2 and score 1 on case 3.
\<close>

theorem alias_score_counterexample:
  "reuse_result_from (ex_store 2) = Some 3 \<and>
   map_option fst
     (run_submission float_decimal (ex_problem False) ex_store (ex_aspect False) 2 ex_key) =
     Some (Inr (ex_result 2 0, ex_result 2 0, ex_result 2 0)) \<and>
   map_option fst
     (run_submission float_decimal (ex_problem False) ex_store (ex_aspect False) 3 ex_key) =
     Some (Inr (ex_result 3 1, ex_result 3 1, ex_result 3 1)) \<and>
   score (ex_result 2 0) = Some 0 \<and> score (ex_result 3 1) = Some 1"
proof -
  have a: "reuse_result_from (ex_store 2) = Some 3" by (simp add: ex_store_def)
  have i0: "init_result_for_testcase (ex_problem False) (ex_store 2) 2
              (set_ac_runtime ((new_SubmissionResult (Some AC) None None None)\<lparr>runtime := 2\<rparr>))
            = ex_result 2 0"
    by (simp add: init_result_for_testcase_def set_ac_runtime_def new_SubmissionResult_def
        ex_problem_def ex_store_def ex_result_def Let_def)
  have i1: "init_result_for_testcase (ex_problem False) (ex_store 3) 3
              (set_ac_runtime ((new_SubmissionResult (Some AC) None None None)\<lparr>runtime := 2\<rparr>))
            = ex_result 3 1"
    by (simp add: init_result_for_testcase_def set_ac_runtime_def new_SubmissionResult_def
        ex_problem_def ex_store_def ex_result_def Let_def)
  from ex_run_submission_real obtain st' asp' where
    r1: "run_submission_real float_decimal (ex_problem False) ex_store (ex_aspect False) 3 ex_key
      = Some (Inr ((set_ac_runtime ((new_SubmissionResult (Some AC) None None None)\<lparr>runtime := 2\<rparr>),
                   set_ac_runtime ((new_SubmissionResult (Some AC) None None None)\<lparr>runtime := 2\<rparr>),
                   set_ac_runtime ((new_SubmissionResult (Some AC) None None None)\<lparr>runtime := 2\<rparr>)),
                  False), st', asp')"
    by auto
  have r0: "run_submission_real float_decimal (ex_problem False) ex_store (ex_aspect False) 2 ex_key
      = run_submission_real float_decimal (ex_problem False) ex_store (ex_aspect False) 3 ex_key"
    using a by (rule run_submission_real_alias)
  show ?thesis
    using a by (simp add: run_submission_def r0 r1 i0 i1 ex_result_def)
qed


end
